theory Spec2Isabelle
  imports
    Main
    "HOL-Library.Word"
    "HOL-Library.Log_Nat"
    "HOL-Library.Signed_Division"
    "HOL-Library.Monad_Syntax"
begin

section \<open>The camera driver layer (camera/camera_driver.c)\<close>

subsection \<open>Descriptors, build configuration and global state\<close>

text \<open>
  A backend handle is the opaque non-NULL \<^verbatim>\<open>void *\<close> a backend's init returns; a NULL
  pointer is \<open>None\<close> throughout.
\<close>

type_synonym handle = nat

text \<open>
  \<^verbatim>\<open>camera_driver_t\<close>, the function table of one backend (declared in camera_driver.h).
  The file calls \<^verbatim>\<open>init\<close> unchecked and tests \<^verbatim>\<open>free\<close>, \<^verbatim>\<open>start\<close>, \<^verbatim>\<open>stop\<close> and \<^verbatim>\<open>poll\<close> against
  NULL before calling them. \<open>init\<close> gives the pointer the backend returns for (device,
  caps, width, height); \<open>start\<close> is \<open>None\<close> for a NULL pointer and otherwise gives the
  backend's answer; for the \<^verbatim>\<open>void\<close> operations only the presence of the pointer is kept.
\<close>

record camera_driver_t =
  init :: "string option \<Rightarrow> 64 word \<Rightarrow> 32 word \<Rightarrow> 32 word \<Rightarrow> handle option"
  free :: bool
  start :: "(handle \<Rightarrow> bool) option"
  stop :: bool
  poll :: bool
  ident :: string

text \<open>
  The preprocessor symbols that decide which descriptors are compiled into
  \<^verbatim>\<open>camera_drivers[]\<close>, and the descriptors themselves, which are defined in other files.
  \<open>APPLE\<close> stands for \<^verbatim>\<open>defined(MAC_OS_X_VERSION_10_7) || defined(__IPHONE_4_0)\<close>.
\<close>

record build_t =
  HAVE_V4L2 :: bool
  EMSCRIPTEN :: bool
  ANDROID :: bool
  APPLE :: bool
  camera_v4l2 :: camera_driver_t
  camera_rwebcam :: camera_driver_t
  camera_android :: camera_driver_t
  camera_apple :: camera_driver_t
  camera_null :: camera_driver_t

text \<open>
  What the functions do to the outside world, in the order they do it: log lines, the
  message queue, calls into the selected backend (named by its identifier) and the two
  notification callbacks of \<^verbatim>\<open>g_extern.system.camera_callback\<close>.
\<close>

datatype event =
    RARCH_ERR string
  | RARCH_LOG_OUTPUT string
  | RARCH_WARN string
  | Msg_queue_push string nat nat
  | Drv_init string "string option" "64 word" "32 word" "32 word"
  | Drv_free string handle
  | Drv_start string handle
  | Drv_stop string handle
  | Drv_poll string handle nat nat
  | Cb_initialized
  | Cb_deinitialized

text \<open>
  The globals the file reads and writes: \<^verbatim>\<open>driver.camera\<close>, \<^verbatim>\<open>driver.camera_data\<close>,
  \<^verbatim>\<open>driver.camera_active\<close>, \<^verbatim>\<open>g_settings.camera.*\<close> and
  \<^verbatim>\<open>g_extern.system.camera_callback.*\<close>. A callback field is \<open>True\<close> when the pointer is
  not NULL. \<open>trace\<close> collects the events.
\<close>

record globals =
  driver_camera :: "camera_driver_t option"
  driver_camera_data :: "handle option"
  driver_camera_active :: bool
  g_settings_camera_driver :: string
  g_settings_camera_allow :: bool
  g_settings_camera_device :: string
  g_settings_camera_width :: "32 word"
  g_settings_camera_height :: "32 word"
  camera_callback_caps :: "64 word"
  camera_callback_width :: "32 word"
  camera_callback_height :: "32 word"
  camera_callback_initialized :: bool
  camera_callback_deinitialized :: bool
  camera_callback_frame_raw_framebuffer :: nat
  camera_callback_frame_opengl_texture :: nat
  trace :: "event list"

definition emit :: "event list \<Rightarrow> globals \<Rightarrow> globals" where
  "emit es g = g\<lparr>trace := trace g @ es\<rparr>"

text \<open>How a function of the file can end the process.\<close>

datatype abort = Rarch_fail int string | Null_dereference

subsection \<open>The registry\<close>

text \<open>
  \<^verbatim>\<open>camera_drivers[]\<close>: the compiled-in descriptors in source order, then
  \<^verbatim>\<open>&camera_null\<close>, then the NULL sentinel.
\<close>

definition camera_drivers :: "build_t \<Rightarrow> camera_driver_t option list" where
  "camera_drivers b =
     (if HAVE_V4L2 b then [Some (camera_v4l2 b)] else []) @
     (if EMSCRIPTEN b then [Some (camera_rwebcam b)] else []) @
     (if ANDROID b then [Some (camera_android b)] else []) @
     (if APPLE b then [Some (camera_apple b)] else []) @
     [Some (camera_null b), None]"

text \<open>
  \<^verbatim>\<open>camera_drivers[index]\<close>. A read outside the array is undefined in C; the loops of this
  file stop at the sentinel and never make one, and the model answers NULL there.
\<close>

definition camera_driver_find_handle :: "build_t \<Rightarrow> int \<Rightarrow> camera_driver_t option" where
  "camera_driver_find_handle b index =
     (if 0 \<le> index \<and> nat index < length (camera_drivers b)
      then camera_drivers b ! nat index else None)"

definition camera_driver_find_ident :: "build_t \<Rightarrow> int \<Rightarrow> string option" where
  "camera_driver_find_ident b index =
     (case camera_driver_find_handle b index of
        None \<Rightarrow> None
      | Some drv \<Rightarrow> Some (ident drv))"

text \<open>
  The loop \<^verbatim>\<open>for (i = 0; camera_driver_find_handle(i); i++)\<close> with
  \<^verbatim>\<open>camera_driver_find_ident(i)\<close> in its body, which both
  \<^verbatim>\<open>config_get_camera_driver_options\<close> and \<^verbatim>\<open>find_camera_driver\<close> run: the identifiers
  from index \<open>i\<close> up to the sentinel, in order.
\<close>

function camera_idents_from :: "build_t \<Rightarrow> nat \<Rightarrow> string list" where
  "camera_idents_from b i =
     (case camera_driver_find_handle b (int i) of
        None \<Rightarrow> []
      | Some drv \<Rightarrow>
          (case camera_driver_find_ident b (int i) of
             None \<Rightarrow> []
           | Some opt \<Rightarrow> opt # camera_idents_from b (Suc i)))"
  by pat_completeness auto
termination
  by (relation "measure (\<lambda>(b, i). length (camera_drivers b) - i)")
     (auto simp: camera_driver_find_handle_def split: if_splits)

text \<open>
  Modelled from the spec: \<^verbatim>\<open>string_list_join_concat\<close> (libretro-common, not among the
  sources) writes the elements separated by the delimiter into a buffer of \<open>buf_size\<close>
  bytes, so at most \<open>buf_size - 1\<close> characters before the terminating NUL.
\<close>

fun join_with :: "string \<Rightarrow> string list \<Rightarrow> string" where
  "join_with delim [] = []"
| "join_with delim [x] = x"
| "join_with delim (x # y # ys) = x @ delim @ join_with delim (y # ys)"

definition string_list_join_concat :: "nat \<Rightarrow> string list \<Rightarrow> string \<Rightarrow> string" where
  "string_list_join_concat buf_size list delim = take (buf_size - 1) (join_with delim list)"

text \<open>
  \<^verbatim>\<open>config_get_camera_driver_options\<close>: \<open>options_l\<close> is the string list the loop appends
  to, \<open>options_len\<close> the sum of \<^verbatim>\<open>strlen(opt) + 1\<close>, the size of the buffer.
\<close>

definition options_l :: "build_t \<Rightarrow> string list" where
  "options_l b = camera_idents_from b 0"

definition options_len :: "build_t \<Rightarrow> nat" where
  "options_len b = sum_list (map (\<lambda>opt. length opt + 1) (options_l b))"

definition config_get_camera_driver_options :: "build_t \<Rightarrow> string" where
  "config_get_camera_driver_options b =
     string_list_join_concat (options_len b) (options_l b) ''|''"

subsection \<open>Selection\<close>

text \<open>
  Modelled from the spec: \<^verbatim>\<open>find_driver_index\<close> (driver.c, not among the sources). The
  spec's \<open>findByName\<close>: "given a configured name, linearly scan the registry for that
  kind; on match return its index", and no index otherwise, which the caller tests as
  \<^verbatim>\<open>i >= 0\<close>. The label selects the kind; the camera registry is the only one here.
\<close>

function find_driver_index_from :: "build_t \<Rightarrow> string \<Rightarrow> nat \<Rightarrow> int" where
  "find_driver_index_from b drv i =
     (case camera_driver_find_ident b (int i) of
        None \<Rightarrow> - 1
      | Some str \<Rightarrow> if str = drv then int i else find_driver_index_from b drv (Suc i))"
  by pat_completeness auto
termination
  by (relation "measure (\<lambda>(b, drv, i). length (camera_drivers b) - i)")
     (auto simp: camera_driver_find_ident_def camera_driver_find_handle_def
           split: if_splits option.splits)

definition find_driver_index :: "build_t \<Rightarrow> string \<Rightarrow> string \<Rightarrow> int" where
  "find_driver_index b label drv = find_driver_index_from b drv 0"

definition msg_not_found :: "string \<Rightarrow> string" where
  "msg_not_found name =
     ''Couldn't find any camera driver named '' @ [CHR 0x22] @ name @ [CHR 0x22, CHR 0x0A]"

definition msg_available :: string where
  "msg_available = ''Available camera drivers are:'' @ [CHR 0x0A]"

definition msg_ident :: "string \<Rightarrow> string" where
  "msg_ident s = [CHR 0x09] @ s @ [CHR 0x0A]"

definition msg_default :: string where
  "msg_default = ''Going to default to first camera driver...'' @ [CHR 0x0A]"

definition find_camera_driver :: "build_t \<Rightarrow> globals \<Rightarrow> abort + globals" where
  "find_camera_driver b g =
     (let i = find_driver_index b ''camera_driver'' (g_settings_camera_driver g) in
      if 0 \<le> i then Inr (g\<lparr>driver_camera := camera_driver_find_handle b i\<rparr>)
      else
        let g1 = emit ([RARCH_ERR (msg_not_found (g_settings_camera_driver g)),
                        RARCH_LOG_OUTPUT msg_available] @
                       map (\<lambda>s. RARCH_LOG_OUTPUT (msg_ident s)) (camera_idents_from b 0) @
                       [RARCH_WARN msg_default]) g;
            g2 = g1\<lparr>driver_camera := camera_driver_find_handle b 0\<rparr>
        in if driver_camera g2 = None then Inl (Rarch_fail 1 ''find_camera_driver()'')
           else Inr g2)"

subsection \<open>Start, stop, poll\<close>

definition msg_disabled :: string where
  "msg_disabled = ''Camera is explicitly disabled.'' @ [CHR 0x0A]"

definition driver_camera_start :: "globals \<Rightarrow> bool \<times> globals" where
  "driver_camera_start g =
     (case (driver_camera g, driver_camera_data g) of
        (Some drv, Some data) \<Rightarrow>
          (case start drv of
             Some f \<Rightarrow>
               if g_settings_camera_allow g
               then (f data, emit [Drv_start (ident drv) data] g)
               else (False, emit [Msg_queue_push msg_disabled 1 180] g)
           | None \<Rightarrow> (False, g))
      | _ \<Rightarrow> (False, g))"

definition driver_camera_stop :: "globals \<Rightarrow> globals" where
  "driver_camera_stop g =
     (case (driver_camera g, driver_camera_data g) of
        (Some drv, Some data) \<Rightarrow>
          if stop drv then emit [Drv_stop (ident drv) data] g else g
      | _ \<Rightarrow> g)"

definition driver_camera_poll :: "globals \<Rightarrow> globals" where
  "driver_camera_poll g =
     (case (driver_camera g, driver_camera_data g) of
        (Some drv, Some data) \<Rightarrow>
          if poll drv
          then emit [Drv_poll (ident drv) data
                       (camera_callback_frame_raw_framebuffer g)
                       (camera_callback_frame_opengl_texture g)] g
          else g
      | _ \<Rightarrow> g)"

subsection \<open>Init and uninit\<close>

definition msg_init_failed :: string where
  "msg_init_failed =
     ''Failed to initialize camera driver. Will continue without camera.'' @ [CHR 0x0A]"

text \<open>
  \<^verbatim>\<open>init_camera\<close>. After \<^verbatim>\<open>find_camera_driver\<close> the code calls
  \<^verbatim>\<open>driver.camera->init\<close> without a test; a NULL \<^verbatim>\<open>driver.camera\<close> there would be a null
  dereference. The three conditional expressions among the arguments of the call come
  first: a non-empty configured device else NULL, and a non-zero configured width and
  height else the callback's.
\<close>

definition camera_init_device :: "globals \<Rightarrow> string option" where
  "camera_init_device g =
     (if g_settings_camera_device g \<noteq> [] then Some (g_settings_camera_device g) else None)"

definition camera_init_width :: "globals \<Rightarrow> 32 word" where
  "camera_init_width g =
     (if g_settings_camera_width g \<noteq> 0 then g_settings_camera_width g
      else camera_callback_width g)"

definition camera_init_height :: "globals \<Rightarrow> 32 word" where
  "camera_init_height g =
     (if g_settings_camera_height g \<noteq> 0 then g_settings_camera_height g
      else camera_callback_height g)"

definition init_camera :: "build_t \<Rightarrow> globals \<Rightarrow> abort + globals" where
  "init_camera b g =
     (if driver_camera_data g \<noteq> None then Inr g
      else
        case find_camera_driver b g of
          Inl e \<Rightarrow> Inl e
        | Inr g1 \<Rightarrow>
            (case driver_camera g1 of
               None \<Rightarrow> Inl Null_dereference
             | Some drv \<Rightarrow>
                 let device = camera_init_device g1;
                     caps = camera_callback_caps g1;
                     width = camera_init_width g1;
                     height = camera_init_height g1;
                     g2 = (emit [Drv_init (ident drv) device caps width height] g1)
                            \<lparr>driver_camera_data := init drv device caps width height\<rparr>;
                     g3 = (if driver_camera_data g2 = None
                           then (emit [RARCH_ERR msg_init_failed] g2)
                                  \<lparr>driver_camera_active := False\<rparr>
                           else g2);
                     g4 = (if camera_callback_initialized g3
                           then emit [Cb_initialized] g3 else g3)
                 in Inr g4))"

definition uninit_camera :: "globals \<Rightarrow> globals" where
  "uninit_camera g =
     (let g3 =
        (case (driver_camera_data g, driver_camera g) of
           (Some data, Some drv) \<Rightarrow>
             let g1 = (if camera_callback_deinitialized g
                       then emit [Cb_deinitialized] g else g);
                 g2 = (if free drv then emit [Drv_free (ident drv) data] g1 else g1)
             in g2
         | _ \<Rightarrow> g)
      in g3\<lparr>driver_camera_data := None\<rparr>)"

section \<open>The OpenGL video driver (gl.c)\<close>

subsection \<open>C floating point\<close>

text \<open>
  \<^verbatim>\<open>float\<close> is IEEE 754 binary32 and \<^verbatim>\<open>double\<close> binary64, every operation is rounded to
  nearest, ties to even, in the type the usual arithmetic conversions give its operands
  (\<^verbatim>\<open>FLT_EVAL_METHOD\<close> 0). A finite floating-point value is the rational number it
  denotes; \<open>None\<close> stands for a result that is not finite (an infinity or a NaN). The
  sign of zero is not kept: nothing below depends on it.
\<close>

definition pow2 :: "int \<Rightarrow> rat" where
  "pow2 e = (if 0 \<le> e then 2 ^ nat e else 1 / 2 ^ nat (- e))"

text \<open>For \<open>x > 0\<close>, the exponent \<open>e\<close> with \<open>2\<^sup>e \<le> x < 2\<^sup>e\<^sup>+\<^sup>1\<close>.\<close>

definition floor_log2 :: "rat \<Rightarrow> int" where
  "floor_log2 x = (if 1 \<le> x then bitlen \<lfloor>x\<rfloor> - 1 else - bitlen (\<lceil>1 / x\<rceil> - 1))"

definition round_half_even :: "rat \<Rightarrow> int" where
  "round_half_even x =
     (let f = \<lfloor>x\<rfloor>; d = x - of_int f
      in if d < 1 / 2 then f
         else if 1 / 2 < d then f + 1
         else if even f then f else f + 1)"

text \<open>
  Rounding to a binary format with \<open>p\<close> significant bits and exponents from \<open>emin\<close> to
  \<open>emax\<close>: below \<open>2\<^bsup>emin\<^esup>\<close> the spacing stays that of the subnormal numbers, and a
  result of magnitude \<open>2\<^bsup>emax+1\<^esup>\<close> or more overflows to an infinity.
\<close>

definition fp_round :: "nat \<Rightarrow> int \<Rightarrow> int \<Rightarrow> rat \<Rightarrow> rat option" where
  "fp_round p emin emax x =
     (if x = 0 then Some 0
      else
        let e = max (floor_log2 \<bar>x\<bar>) emin;
            ulp = pow2 (e - int p + 1);
            r = of_int (round_half_even (x / ulp)) * ulp
        in if \<bar>r\<bar> < pow2 (emax + 1) then Some r else None)"

definition to_float :: "rat \<Rightarrow> rat option" where
  "to_float = fp_round 24 (- 126) 127"

definition to_double :: "rat \<Rightarrow> rat option" where
  "to_double = fp_round 53 (- 1022) 1023"

text \<open>
  Division in the format of the rounding \<open>rnd\<close>: a zero divisor gives an infinity or a
  NaN.
\<close>

definition fdiv :: "(rat \<Rightarrow> rat option) \<Rightarrow> rat \<Rightarrow> rat \<Rightarrow> rat option" where
  "fdiv rnd a b = (if b = 0 then None else rnd (a / b))"

text \<open>
  The conversion of a finite floating-point value to \<^verbatim>\<open>int\<close> (a cast, or the implicit
  conversion of an argument to \<^verbatim>\<open>GLint\<close> or \<^verbatim>\<open>GLsizei\<close>): the fraction is discarded, and
  the behaviour is undefined when the integral part does not fit 32 bits (\<open>None\<close>).
\<close>

definition to_int :: "rat \<Rightarrow> int option" where
  "to_int x =
     (let t = (if 0 \<le> x then \<lfloor>x\<rfloor> else \<lceil>x\<rceil>)
      in if - (2 ^ 31) \<le> t \<and> t < 2 ^ 31 then Some t else None)"

subsection \<open>The viewport\<close>

text \<open>The four arguments of a \<^verbatim>\<open>glViewport\<close> call.\<close>

record viewport =
  vp_x :: int
  vp_y :: int
  vp_width :: int
  vp_height :: int

text \<open>
  \<^verbatim>\<open>resize\<close>, the window-size callback, as the \<^verbatim>\<open>glViewport\<close> call it makes; the static
  \<^verbatim>\<open>keep_aspect\<close> is its first argument. The other calls of the function (the projection
  matrix and the Cg parameter) take no data. \<open>None\<close>: the C behaviour is undefined (a
  zero height makes the device aspect an infinity or a NaN, which the cast to \<^verbatim>\<open>int\<close>
  cannot take; or a converted value does not fit an \<^verbatim>\<open>int\<close>).
\<close>

definition resize :: "bool \<Rightarrow> int \<Rightarrow> int \<Rightarrow> viewport option" where
  "resize keep_aspect width height =
     (if keep_aspect then do {
        four_thirds \<leftarrow> fdiv to_double 4 3;
        desired_aspect \<leftarrow> to_float four_thirds;
        width_f \<leftarrow> to_float (of_int width);
        height_f \<leftarrow> to_float (of_int height);
        device_aspect \<leftarrow> fdiv to_float width_f height_f;
        device_1000 \<leftarrow> to_float (device_aspect * 1000);
        device_int \<leftarrow> to_int device_1000;
        desired_1000 \<leftarrow> to_float (desired_aspect * 1000);
        desired_int \<leftarrow> to_int desired_1000;
        if device_int > desired_int then do {
          quot \<leftarrow> fdiv to_float desired_aspect device_aspect;
          minus_one \<leftarrow> to_double (quot - 1);
          halved \<leftarrow> fdiv to_double minus_one 2;
          delta_d \<leftarrow> to_double (halved + 1 / 2);
          delta \<leftarrow> to_float delta_d;
          margin \<leftarrow> to_double (1 / 2 - delta);
          x_d \<leftarrow> to_double (of_int width * margin);
          x \<leftarrow> to_int x_d;
          twice \<leftarrow> to_double (2 * of_int width);
          w_d \<leftarrow> to_double (twice * delta);
          w \<leftarrow> to_int w_d;
          Some \<lparr>vp_x = x, vp_y = 0, vp_width = w, vp_height = height\<rparr>
        } else if device_int < desired_int then do {
          quot \<leftarrow> fdiv to_float device_aspect desired_aspect;
          minus_one \<leftarrow> to_double (quot - 1);
          halved \<leftarrow> fdiv to_double minus_one 2;
          delta_d \<leftarrow> to_double (halved + 1 / 2);
          delta \<leftarrow> to_float delta_d;
          margin \<leftarrow> to_double (1 / 2 - delta);
          y_d \<leftarrow> to_double (of_int height * margin);
          y \<leftarrow> to_int y_d;
          twice \<leftarrow> to_double (2 * of_int height);
          h_d \<leftarrow> to_double (twice * delta);
          h \<leftarrow> to_int h_d;
          Some \<lparr>vp_x = 0, vp_y = y, vp_width = width, vp_height = h\<rparr>
        } else Some \<lparr>vp_x = 0, vp_y = 0, vp_width = width, vp_height = height\<rparr>
      } else Some \<lparr>vp_x = 0, vp_y = 0, vp_width = width, vp_height = height\<rparr>)"

subsection \<open>The driver's state and the window system\<close>

datatype gl_filter = GL_LINEAR | GL_NEAREST

record gl_t =
  vsync :: bool
  texture :: "32 word"
  tex_filter :: gl_filter

text \<open>
  The fields of \<^verbatim>\<open>video_info_t\<close> (driver.h) that \<^verbatim>\<open>gl_init\<close> reads, and what the library
  calls of \<^verbatim>\<open>gl_init\<close> answer: whether \<^verbatim>\<open>malloc\<close> succeeds, the result of
  \<^verbatim>\<open>glfwOpenWindow\<close>, the name \<^verbatim>\<open>glGenTextures\<close> gives, and with \<^verbatim>\<open>HAVE_CG\<close> whether the
  Cg context, the profiles and the two programs are there.
\<close>

record video_info_t =
  video_width :: "32 word"
  video_height :: "32 word"
  video_fullscreen :: bool
  video_vsync :: bool
  video_force_aspect :: bool
  video_smooth :: bool

record gl_env =
  HAVE_CG :: bool
  malloc_ok :: bool
  glfwOpenWindow_res :: int
  glGenTextures_name :: "32 word"
  cgCreateContext_ok :: bool
  cg_profiles_known :: bool
  cg_programs_ok :: bool

record timeval =
  tv_sec :: int
  tv_usec :: int

text \<open>
  A window title: the plain one \<^verbatim>\<open>gl_init\<close> sets, or the one \<^verbatim>\<open>show_fps\<close> formats from
  the frame rate (\<open>None\<close> when it is not finite) and the frame count.
\<close>

datatype title = Title_SSNES | Title_FPS "rat option" int

datatype gl_call =
    GlClear
  | CgGLSetParameter2f_video_size "rat option" "rat option"
  | CgGLSetParameter2f_texture_size "rat option" "rat option"
  | GlPixelStorei_UNPACK_ROW_LENGTH int
  | GlTexImage2D int int nat
  | GlDrawArrays
  | GlfwSwapBuffers

text \<open>
  The statics of gl.c (\<^verbatim>\<open>keep_aspect\<close>, and \<^verbatim>\<open>frames\<close> and \<^verbatim>\<open>tv\<close> of \<^verbatim>\<open>show_fps\<close>) and
  what the driver does to the window system: the swap interval last set with
  \<^verbatim>\<open>glfwSwapInterval\<close>, the titles set with \<^verbatim>\<open>glfwSetWindowTitle\<close> and the calls of
  \<^verbatim>\<open>gl_frame\<close>, oldest first, and how many times the clock was read. \<^verbatim>\<open>frames\<close> is an
  \<^verbatim>\<open>int\<close>; its increment wraps around here, as it does on the usual targets (C leaves
  the overflow undefined).
\<close>

record gl_world =
  keep_aspect :: bool
  frames :: "32 word"
  tv :: timeval
  clock_reads :: nat
  swap_interval :: int
  titles :: "title list"
  gl_calls :: "gl_call list"

text \<open>\<^verbatim>\<open>gettimeofday\<close>: the clock is the sequence of its readings.\<close>

definition gettimeofday :: "(nat \<Rightarrow> timeval) \<Rightarrow> gl_world \<Rightarrow> timeval \<times> gl_world" where
  "gettimeofday clock w = (clock (clock_reads w), w\<lparr>clock_reads := Suc (clock_reads w)\<rparr>)"

subsection \<open>Frame rate and frame submission\<close>

text \<open>
  \<^verbatim>\<open>tv_to_fps\<close>. The differences are \<^verbatim>\<open>long\<close> subtractions; the microseconds are divided
  by \<^verbatim>\<open>1000000.0\<close> and added to the seconds in \<^verbatim>\<open>double\<close>; the sum is stored in the
  \<^verbatim>\<open>float time\<close>; \<^verbatim>\<open>frames/time\<close> is a \<^verbatim>\<open>float\<close> division.
\<close>

definition tv_to_fps :: "timeval \<Rightarrow> timeval \<Rightarrow> int \<Rightarrow> rat option" where
  "tv_to_fps tv0 new_tv n = do {
     usec_d \<leftarrow> to_double (of_int (tv_usec new_tv - tv_usec tv0));
     frac \<leftarrow> fdiv to_double usec_d 1000000;
     sec_d \<leftarrow> to_double (of_int (tv_sec new_tv - tv_sec tv0));
     time_d \<leftarrow> to_double (sec_d + frac);
     time \<leftarrow> to_float time_d;
     frames_f \<leftarrow> to_float (of_int n);
     fdiv to_float frames_f time
   }"

definition show_fps :: "(nat \<Rightarrow> timeval) \<Rightarrow> gl_world \<Rightarrow> gl_world" where
  "show_fps clock w =
     (let w1 = (if frames w = 0
                then (let (t, w') = gettimeofday clock w in w'\<lparr>tv := t\<rparr>)
                else w);
          w2 = (if sint (frames w1) smod 180 = 0 \<and> 0 < sint (frames w1)
                then
                  let (new_tv, wa) = gettimeofday clock w1;
                      tmp_tv = tv wa;
                      (t, wb) = gettimeofday clock wa;
                      wc = wb\<lparr>tv := t\<rparr>;
                      fps = tv_to_fps tmp_tv new_tv 180
                  in wc\<lparr>titles := titles wc @ [Title_FPS fps (sint (frames wc))]\<rparr>
                else w1)
      in w2\<lparr>frames := frames w2 + 1\<rparr>)"

text \<open>
  \<^verbatim>\<open>gl_frame\<close>: \<open>frame\<close> is the address of the pixel buffer. \<^verbatim>\<open>pitch >> 1\<close> halves the
  pitch, rounding down. \<^verbatim>\<open>cgGLSetParameter2f\<close> takes \<^verbatim>\<open>float\<close>s, so the width and the height
  are converted on the way in.
\<close>

definition gl_frame ::
  "gl_env \<Rightarrow> (nat \<Rightarrow> timeval) \<Rightarrow> gl_t \<Rightarrow> nat \<Rightarrow> int \<Rightarrow> int \<Rightarrow> int \<Rightarrow> gl_world \<Rightarrow>
     bool \<times> gl_world" where
  "gl_frame env clock gl frame width height pitch w =
     (let w1 = w\<lparr>gl_calls := gl_calls w @ [GlClear] @
                   (if HAVE_CG env
                    then [CgGLSetParameter2f_video_size
                            (to_float (of_int width)) (to_float (of_int height)),
                          CgGLSetParameter2f_texture_size
                            (to_float (of_int width)) (to_float (of_int height))]
                    else []) @
                   [GlPixelStorei_UNPACK_ROW_LENGTH (pitch div 2),
                    GlTexImage2D width height frame,
                    GlDrawArrays]\<rparr>;
          w2 = show_fps clock w1;
          w3 = w2\<lparr>gl_calls := gl_calls w2 @ [GlfwSwapBuffers]\<rparr>
      in (True, w3))"

text \<open>
  \<^verbatim>\<open>gl_set_nonblock_state\<close>: the driver data go in and come out, so that what the function
  does to them can be stated.
\<close>

definition gl_set_nonblock_state :: "gl_t \<Rightarrow> bool \<Rightarrow> gl_world \<Rightarrow> gl_t \<times> gl_world" where
  "gl_set_nonblock_state gl state w =
     (if vsync gl
      then (if state then (gl, w\<lparr>swap_interval := 0\<rparr>) else (gl, w\<lparr>swap_interval := 1\<rparr>))
      else (gl, w))"

text \<open>
  \<^verbatim>\<open>gl_init\<close>, as far as the state above goes: \<open>None\<close> is the NULL it returns when the
  allocation, the window or (with \<^verbatim>\<open>HAVE_CG\<close>) the shader setup fails. \<^verbatim>\<open>keep_aspect\<close> is
  written before the window is opened.
\<close>

definition gl_init :: "gl_env \<Rightarrow> video_info_t \<Rightarrow> gl_world \<Rightarrow> gl_t option \<times> gl_world" where
  "gl_init env video w =
     (if \<not> malloc_ok env then (None, w)
      else
        let w1 = w\<lparr>keep_aspect := video_force_aspect video\<rparr>;
            filter = (if video_smooth video then GL_LINEAR else GL_NEAREST)
        in if glfwOpenWindow_res env = 0 then (None, w1)
           else
             let w2 = w1\<lparr>swap_interval := (if video_vsync video then 1 else 0)\<rparr>;
                 w3 = w2\<lparr>titles := titles w2 @ [Title_SSNES]\<rparr>;
                 gl = \<lparr>vsync = video_vsync video, texture = glGenTextures_name env,
                       tex_filter = filter\<rparr>
             in if HAVE_CG env \<and>
                   \<not> (cgCreateContext_ok env \<and> cg_profiles_known env \<and> cg_programs_ok env)
                then (None, w3)
                else (Some gl, w3))"

text \<open>A run of frame submissions: one \<^verbatim>\<open>gl_frame\<close> call per (frame, width, height, pitch).\<close>

fun submit_frames ::
  "gl_env \<Rightarrow> (nat \<Rightarrow> timeval) \<Rightarrow> gl_t \<Rightarrow> (nat \<times> int \<times> int \<times> int) list \<Rightarrow> gl_world \<Rightarrow> gl_world"
where
  "submit_frames env clock gl [] w = w"
| "submit_frames env clock gl ((frame, width, height, pitch) # fs) w =
     submit_frames env clock gl fs (snd (gl_frame env clock gl frame width height pitch w))"

subsection \<open>The aspect-lock algorithm in the words of the specification\<close>

text \<open>
  The spec's algorithm, over the rational numbers: compare \<open>round (x * 1000)\<close> of the
  device aspect \<open>width / height\<close> and of the desired aspect \<open>4/3\<close>; a wider device gets
  \<open>delta = (desired / device - 1) / 2 + 0.5\<close>, origin-x \<open>width * (0.5 - delta)\<close>, width
  \<open>2 * width * delta\<close> and the full height; a narrower one the same with the axes
  swapped; otherwise the full surface.
\<close>

record spec_viewport =
  sv_x :: rat
  sv_y :: rat
  sv_width :: rat
  sv_height :: rat

definition spec_resize :: "int \<Rightarrow> int \<Rightarrow> spec_viewport" where
  "spec_resize width height =
     (let desiredAspect = 4 / 3;
          deviceAspect = of_int width / of_int height
      in if round (deviceAspect * 1000) > round (desiredAspect * 1000)
         then
           let delta = (desiredAspect / deviceAspect - 1) / 2 + 1 / 2
           in \<lparr>sv_x = of_int width * (1 / 2 - delta), sv_y = 0,
                sv_width = 2 * of_int width * delta, sv_height = of_int height\<rparr>
         else if round (deviceAspect * 1000) < round (desiredAspect * 1000)
         then
           let delta = (deviceAspect / desiredAspect - 1) / 2 + 1 / 2
           in \<lparr>sv_x = 0, sv_y = of_int height * (1 / 2 - delta),
                sv_width = of_int width, sv_height = 2 * of_int height * delta\<rparr>
         else \<lparr>sv_x = 0, sv_y = 0, sv_width = of_int width, sv_height = of_int height\<rparr>)"

text \<open>
  The parts of \<^verbatim>\<open>resize\<close> by the names the spec gives them, in C arithmetic: the two
  aspects, the key \<^verbatim>\<open>(int)(x*1000)\<close> that is compared, \<open>delta\<close>, and the origin and the
  extent of the letterboxed axis as they arrive in \<^verbatim>\<open>glViewport\<close>.
\<close>

definition desired_aspect :: "rat option" where
  "desired_aspect = do { four_thirds \<leftarrow> fdiv to_double 4 3; to_float four_thirds }"

definition device_aspect :: "int \<Rightarrow> int \<Rightarrow> rat option" where
  "device_aspect width height = do {
     width_f \<leftarrow> to_float (of_int width);
     height_f \<leftarrow> to_float (of_int height);
     fdiv to_float width_f height_f
   }"

definition aspect_key :: "rat \<Rightarrow> int option" where
  "aspect_key a = do { m \<leftarrow> to_float (a * 1000); to_int m }"

definition letterbox_delta :: "rat \<Rightarrow> rat \<Rightarrow> rat option" where
  "letterbox_delta num den = do {
     quot \<leftarrow> fdiv to_float num den;
     minus_one \<leftarrow> to_double (quot - 1);
     halved \<leftarrow> fdiv to_double minus_one 2;
     delta_d \<leftarrow> to_double (halved + 1 / 2);
     to_float delta_d
   }"

definition letterbox_origin :: "int \<Rightarrow> rat \<Rightarrow> int option" where
  "letterbox_origin extent delta = do {
     margin \<leftarrow> to_double (1 / 2 - delta);
     d \<leftarrow> to_double (of_int extent * margin);
     to_int d
   }"

definition letterbox_extent :: "int \<Rightarrow> rat \<Rightarrow> int option" where
  "letterbox_extent extent delta = do {
     twice \<leftarrow> to_double (2 * of_int extent);
     d \<leftarrow> to_double (twice * delta);
     to_int d
   }"

subsection \<open>Auxiliary notions for the statements, and test data\<close>

text \<open>The non-sentinel entries of \<^verbatim>\<open>camera_drivers[]\<close>.\<close>

definition registered :: "build_t \<Rightarrow> camera_driver_t list" where
  "registered b =
     (if HAVE_V4L2 b then [camera_v4l2 b] else []) @
     (if EMSCRIPTEN b then [camera_rwebcam b] else []) @
     (if ANDROID b then [camera_android b] else []) @
     (if APPLE b then [camera_apple b] else []) @
     [camera_null b]"

text \<open>The number of backend init calls (allocations) in a trace.\<close>

fun is_Drv_init :: "event \<Rightarrow> bool" where
  "is_Drv_init (Drv_init name device caps width height) = True"
| "is_Drv_init e = False"

definition backend_inits :: "event list \<Rightarrow> nat" where
  "backend_inits tr = length (filter is_Drv_init tr)"

text \<open>
  Test data: a build with the V4L2 backend and the null backend, where the V4L2 backend
  finds no device (its init returns NULL) and the null backend always succeeds.
\<close>

definition example_null :: camera_driver_t where
  "example_null = \<lparr>init = (\<lambda>device caps width height. Some 1), free = True,
     start = Some (\<lambda>data. True), stop = True, poll = True, ident = ''null''\<rparr>"

definition example_v4l2 :: camera_driver_t where
  "example_v4l2 = \<lparr>init = (\<lambda>device caps width height. None), free = True,
     start = Some (\<lambda>data. False), stop = True, poll = True, ident = ''video4linux2''\<rparr>"

definition example_build :: build_t where
  "example_build = \<lparr>HAVE_V4L2 = True, EMSCRIPTEN = False, ANDROID = False, APPLE = False,
     camera_v4l2 = example_v4l2, camera_rwebcam = example_null, camera_android = example_null,
     camera_apple = example_null, camera_null = example_null\<rparr>"

definition example_globals :: globals where
  "example_globals = \<lparr>driver_camera = None, driver_camera_data = None,
     driver_camera_active = True, g_settings_camera_driver = ''null'',
     g_settings_camera_allow = False, g_settings_camera_device = [],
     g_settings_camera_width = 0, g_settings_camera_height = 0,
     camera_callback_caps = 1, camera_callback_width = 640, camera_callback_height = 480,
     camera_callback_initialized = True, camera_callback_deinitialized = True,
     camera_callback_frame_raw_framebuffer = 1, camera_callback_frame_opengl_texture = 0,
     trace = []\<rparr>"

text \<open>
  A clock that advances by the same step, \<open>ds\<close> seconds and \<open>dus\<close> microseconds, from
  each reading to the next.
\<close>

definition steady :: "(nat \<Rightarrow> timeval) \<Rightarrow> int \<Rightarrow> int \<Rightarrow> bool" where
  "steady clock ds dus \<longleftrightarrow>
     (\<forall>n. tv_sec (clock (Suc n)) = tv_sec (clock n) + ds \<and>
          tv_usec (clock (Suc n)) = tv_usec (clock n) + dus)"

text \<open>
  The value of the \<^verbatim>\<open>float time\<close> of \<^verbatim>\<open>tv_to_fps\<close>: the elapsed seconds from \<open>tv0\<close> to
  \<open>new_tv\<close> as the function computes them.
\<close>

definition elapsed_float :: "timeval \<Rightarrow> timeval \<Rightarrow> rat option" where
  "elapsed_float tv0 new_tv = do {
     usec_d \<leftarrow> to_double (of_int (tv_usec new_tv - tv_usec tv0));
     frac \<leftarrow> fdiv to_double usec_d 1000000;
     sec_d \<leftarrow> to_double (of_int (tv_sec new_tv - tv_sec tv0));
     time_d \<leftarrow> to_double (sec_d + frac);
     to_float time_d
   }"

text \<open>The elapsed seconds from \<open>tv0\<close> to \<open>new_tv\<close> as a rational number.\<close>

definition elapsed_seconds :: "timeval \<Rightarrow> timeval \<Rightarrow> rat" where
  "elapsed_seconds tv0 new_tv =
     of_int (tv_sec new_tv - tv_sec tv0) + of_int (tv_usec new_tv - tv_usec tv0) / 1000000"

text \<open>
  Test data: a driver created with vsync requested, the statics as the program starts
  with them, and a clock that advances three seconds with every reading.
\<close>

definition example_gl :: gl_t where
  "example_gl = \<lparr>vsync = True, texture = 1, tex_filter = GL_NEAREST\<rparr>"

definition example_world :: gl_world where
  "example_world = \<lparr>keep_aspect = True, frames = 0, tv = \<lparr>tv_sec = 0, tv_usec = 0\<rparr>,
     clock_reads = 0, swap_interval = 0, titles = [], gl_calls = []\<rparr>"

definition example_env :: gl_env where
  "example_env = \<lparr>HAVE_CG = False, malloc_ok = True, glfwOpenWindow_res = 1,
     glGenTextures_name = 1, cgCreateContext_ok = False, cg_profiles_known = False,
     cg_programs_ok = False\<rparr>"

definition example_video :: video_info_t where
  "example_video = \<lparr>video_width = 800, video_height = 600, video_fullscreen = False,
     video_vsync = True, video_force_aspect = True, video_smooth = False\<rparr>"

definition example_clock :: "nat \<Rightarrow> timeval" where
  "example_clock n = \<lparr>tv_sec = 3 * int n, tv_usec = 0\<rparr>"

text \<open>
  The invariant of \<^verbatim>\<open>show_fps\<close>: once frames have been counted, \<^verbatim>\<open>tv\<close> holds the latest
  reading of the clock, the start of the current sample window.
\<close>

definition window_open :: "(nat \<Rightarrow> timeval) \<Rightarrow> gl_world \<Rightarrow> bool" where
  "window_open clock w \<longleftrightarrow>
     frames w = 0 \<or> (0 < clock_reads w \<and> tv w = clock (clock_reads w - 1))"

section \<open>Properties of the camera driver layer\<close>

declare camera_idents_from.simps [simp del]
declare find_driver_index_from.simps [simp del]

subsection \<open>The registry and its two loops\<close>

lemma camera_drivers_length: "2 \<le> length (camera_drivers b)"
  by (simp add: camera_drivers_def)

lemma camera_drivers_registered: "camera_drivers b = map Some (registered b) @ [None]"
  by (simp add: camera_drivers_def registered_def)

lemma registered_nonempty: "registered b \<noteq> []"
  by (simp add: registered_def)

lemma registered_last: "last (registered b) = camera_null b"
  by (simp add: registered_def)

lemma find_handle_int:
  "camera_driver_find_handle b k =
     (if 0 \<le> k \<and> nat k < length (registered b) then Some (registered b ! nat k) else None)"
  by (auto simp: camera_driver_find_handle_def camera_drivers_registered nth_append)

lemma find_ident_int:
  "camera_driver_find_ident b k =
     (if 0 \<le> k \<and> nat k < length (registered b)
      then Some (ident (registered b ! nat k)) else None)"
  by (simp add: camera_driver_find_ident_def find_handle_int)

lemma find_handle_registered:
  "camera_driver_find_handle b (int i) =
     (if i < length (registered b) then Some (registered b ! i) else None)"
  by (simp add: find_handle_int)

lemma find_ident_registered:
  "camera_driver_find_ident b (int i) =
     (if i < length (registered b) then Some (ident (registered b ! i)) else None)"
  by (simp add: find_ident_int)

lemma camera_idents_from_eq:
  "camera_idents_from b i = map ident (drop i (registered b))"
proof (induction b i rule: camera_idents_from.induct)
  case (1 b i)
  show ?case
  proof (cases "i < length (registered b)")
    case True
    then have "camera_idents_from b i = ident (registered b ! i) # camera_idents_from b (Suc i)"
      by (subst camera_idents_from.simps) (simp add: find_handle_registered find_ident_registered)
    also have "camera_idents_from b (Suc i) = map ident (drop (Suc i) (registered b))"
      using True by (intro "1.IH") (simp_all add: find_handle_registered find_ident_registered)
    finally show ?thesis
      using True by (simp add: Cons_nth_drop_Suc [symmetric])
  next
    case False
    then show ?thesis
      by (subst camera_idents_from.simps) (simp add: find_handle_registered)
  qed
qed

lemma options_l_eq: "options_l b = map ident (registered b)"
  by (simp add: options_l_def camera_idents_from_eq)

lemma find_driver_index_from_miss:
  "drv \<notin> set (map ident (drop i (registered b))) \<Longrightarrow> find_driver_index_from b drv i = - 1"
proof (induction b drv i rule: find_driver_index_from.induct)
  case (1 b drv i)
  show ?case
  proof (cases "i < length (registered b)")
    case True
    with "1.prems" have ne: "ident (registered b ! i) \<noteq> drv"
      and rest: "drv \<notin> set (map ident (drop (Suc i) (registered b)))"
      by (auto simp: Cons_nth_drop_Suc [symmetric])
    have "find_driver_index_from b drv i = find_driver_index_from b drv (Suc i)"
      using True ne by (subst find_driver_index_from.simps) (simp add: find_ident_registered)
    also have "\<dots> = - 1"
      using True ne rest by (intro "1.IH") (simp_all add: find_ident_registered)
    finally show ?thesis .
  next
    case False
    then show ?thesis
      by (subst find_driver_index_from.simps) (simp add: find_ident_registered)
  qed
qed

lemma example_registered: "registered example_build = [example_v4l2, example_null]"
  by (simp add: registered_def example_build_def)

lemma example_options: "options_l example_build = [''video4linux2'', ''null'']"
  by (simp add: options_l_eq example_registered example_v4l2_def example_null_def)

text \<open>
  The buffer of \<^verbatim>\<open>config_get_camera_driver_options\<close> is exactly as long as the joined
  identifiers need, so the string is all of them, separated by bars.
\<close>

lemma join_with_length:
  "xs \<noteq> [] \<Longrightarrow> Suc (length (join_with ''|'' xs)) = sum_list (map (\<lambda>opt. length opt + 1) xs)"
  by (induction "''|''" xs rule: join_with.induct) simp_all

lemma config_get_camera_driver_options_eq:
  "config_get_camera_driver_options b = join_with ''|'' (map ident (registered b))"
proof -
  have "options_l b \<noteq> []"
    by (simp add: options_l_eq registered_nonempty)
  from join_with_length [OF this]
  have "options_len b - 1 = length (join_with ''|'' (options_l b))"
    by (simp add: options_len_def)
  then show ?thesis
    by (simp add: config_get_camera_driver_options_def string_list_join_concat_def options_l_eq)
qed

lemma example_options_string:
  "config_get_camera_driver_options example_build = ''video4linux2|null''"
  by (simp add: config_get_camera_driver_options_eq example_registered example_v4l2_def
      example_null_def)

lemma join_with_last:
  "xs \<noteq> [] \<Longrightarrow> \<exists>pre. join_with delim xs = pre @ last xs"
proof (induction delim xs rule: join_with.induct)
  case (3 delim x y ys)
  then obtain pre where "join_with delim (y # ys) = pre @ last (y # ys)" by auto
  then have "join_with delim (x # y # ys) = (x @ delim @ pre) @ last (x # y # ys)" by simp
  then show ?case by blast
qed simp_all

text \<open>
  Claim C6. For every compile-time configuration the registry has a non-sentinel entry,
  its last entry is the NULL sentinel, the entry before the sentinel is the null driver
  and no entry before the sentinel is NULL; so the identifier list that
  \<^verbatim>\<open>config_get_camera_driver_options\<close> collects has at least one element and its last
  element is the null driver's identifier, and the string the function returns is all
  of that list joined with bars, fills the buffer of \<open>options_len\<close> bytes up to the
  terminating NUL, and ends with the null driver's identifier.
\<close>

theorem camera_registry_ends_with_null:
  "butlast (camera_drivers b) \<noteq> [] \<and>
   last (camera_drivers b) = None \<and>
   last (butlast (camera_drivers b)) = Some (camera_null b) \<and>
   None \<notin> set (butlast (camera_drivers b)) \<and>
   1 \<le> length (options_l b) \<and>
   last (options_l b) = ident (camera_null b) \<and>
   config_get_camera_driver_options b = join_with ''|'' (options_l b) \<and>
   Suc (length (config_get_camera_driver_options b)) = options_len b \<and>
   (\<exists>pre. config_get_camera_driver_options b = pre @ ident (camera_null b))"
proof -
  have ne: "registered b \<noteq> []" by (rule registered_nonempty)
  have bl: "butlast (camera_drivers b) = map Some (registered b)"
    by (simp add: camera_drivers_registered butlast_append)
  have "last (map Some (registered b)) = Some (camera_null b)"
    using ne by (simp add: last_map registered_last)
  moreover have la: "last (options_l b) = ident (camera_null b)"
    using ne by (simp add: options_l_eq last_map registered_last)
  moreover have "1 \<le> length (options_l b)"
    using ne by (cases "registered b") (simp_all add: options_l_eq)
  moreover have one: "options_l b \<noteq> []"
    using ne by (simp add: options_l_eq)
  moreover have str: "config_get_camera_driver_options b = join_with ''|'' (options_l b)"
    by (simp add: config_get_camera_driver_options_eq options_l_eq)
  moreover have "Suc (length (config_get_camera_driver_options b)) = options_len b"
    unfolding str options_len_def by (rule join_with_length [OF one])
  moreover have "\<exists>pre. config_get_camera_driver_options b = pre @ ident (camera_null b)"
    using join_with_last [OF one, of "''|''"] by (simp add: str la)
  ultimately show ?thesis
    using ne by (auto simp: bl camera_drivers_registered)
qed

theorem camera_registry_ends_with_null_witness:
  "options_l example_build = [''video4linux2'', ''null''] \<and>
   last (options_l example_build) = ''null'' \<and>
   config_get_camera_driver_options example_build = ''video4linux2|null'' \<and>
   options_len example_build = 18"
proof -
  from camera_registry_ends_with_null [of example_build]
  have str: "config_get_camera_driver_options example_build =
               join_with ''|'' (options_l example_build)"
    and len: "Suc (length (config_get_camera_driver_options example_build)) =
               options_len example_build"
    and la: "last (options_l example_build) = ident (camera_null example_build)"
    by blast+
  have s: "config_get_camera_driver_options example_build = ''video4linux2|null''"
    unfolding str by (simp add: example_options)
  have "options_len example_build = 18"
    unfolding len [symmetric] s by simp
  with s la show ?thesis
    by (simp add: example_options)
qed

lemma find_handle_0: "camera_driver_find_handle b 0 = Some (hd (registered b))"
  using find_handle_registered [of b 0] registered_nonempty [of b]
  by (simp add: hd_conv_nth)

text \<open>
  Claim C5. When the configured name is no registered identifier,
  \<^verbatim>\<open>find_camera_driver\<close> logs the error with the name, the header, one line per
  registered identifier in registry order and the warning, and then sets
  \<^verbatim>\<open>driver.camera\<close> to entry 0 of the registry, which is not NULL; nothing else of the
  globals changes, and the registry is a constant of the build. The empty name is one
  such name as long as no identifier is empty, and then it selects the same entry.
\<close>

theorem find_camera_driver_fallback:
  assumes "g_settings_camera_driver g \<notin> set (options_l b)"
  shows "find_camera_driver b g =
           Inr ((emit ([RARCH_ERR (msg_not_found (g_settings_camera_driver g)),
                        RARCH_LOG_OUTPUT msg_available] @
                       map (\<lambda>s. RARCH_LOG_OUTPUT (msg_ident s)) (options_l b) @
                       [RARCH_WARN msg_default]) g)
                \<lparr>driver_camera := camera_drivers b ! 0\<rparr>) \<and>
         camera_drivers b ! 0 \<noteq> None \<and>
         ([] \<notin> set (options_l b) \<longrightarrow>
            map_sum id driver_camera (find_camera_driver b g) =
            map_sum id driver_camera (find_camera_driver b (g\<lparr>g_settings_camera_driver := []\<rparr>)))"
proof -
  have miss: "\<And>name. name \<notin> set (options_l b) \<Longrightarrow> find_driver_index b ''camera_driver'' name = - 1"
    unfolding find_driver_index_def
    by (rule find_driver_index_from_miss) (simp add: options_l_eq)
  have h0: "camera_driver_find_handle b 0 = camera_drivers b ! 0"
    using camera_drivers_length [of b] by (auto simp: camera_driver_find_handle_def)
  have nz: "camera_drivers b ! 0 \<noteq> None"
    using find_handle_0 [of b] h0 by simp
  have sel: "\<And>g'. g_settings_camera_driver g' \<notin> set (options_l b) \<Longrightarrow>
      find_camera_driver b g' =
           Inr ((emit ([RARCH_ERR (msg_not_found (g_settings_camera_driver g')),
                        RARCH_LOG_OUTPUT msg_available] @
                       map (\<lambda>s. RARCH_LOG_OUTPUT (msg_ident s)) (options_l b) @
                       [RARCH_WARN msg_default]) g')
                \<lparr>driver_camera := camera_drivers b ! 0\<rparr>)"
    using nz by (simp add: find_camera_driver_def miss h0 options_l_def Let_def)
  show ?thesis
    using sel [OF assms] nz
    by (auto simp: sel)
qed

theorem find_camera_driver_fallback_witness:
  "''webcam'' \<notin> set (options_l example_build) \<and>
   [] \<notin> set (options_l example_build) \<and>
   find_camera_driver example_build (example_globals\<lparr>g_settings_camera_driver := ''webcam''\<rparr>) =
     Inr (example_globals\<lparr>g_settings_camera_driver := ''webcam'',
            trace := [RARCH_ERR (msg_not_found ''webcam''), RARCH_LOG_OUTPUT msg_available,
                      RARCH_LOG_OUTPUT (msg_ident ''video4linux2''),
                      RARCH_LOG_OUTPUT (msg_ident ''null''), RARCH_WARN msg_default],
            driver_camera := Some example_v4l2\<rparr>) \<and>
   map_sum id driver_camera
     (find_camera_driver example_build (example_globals\<lparr>g_settings_camera_driver := []\<rparr>)) =
     Inr (Some example_v4l2)"
proof -
  have d0: "camera_drivers example_build ! 0 = Some example_v4l2"
    by (simp add: camera_drivers_def example_build_def)
  have nin: "g_settings_camera_driver (example_globals\<lparr>g_settings_camera_driver := ''webcam''\<rparr>)
               \<notin> set (options_l example_build)"
    by (simp add: example_options)
  show ?thesis
    using find_camera_driver_fallback [OF nin]
    by (auto simp: d0 example_options emit_def example_globals_def)
qed

text \<open>
  Claim C2. With a live handle and its descriptor, \<^verbatim>\<open>uninit_camera\<close> calls the
  deinitialized callback (when there is one), after it the descriptor's free (when
  there is one), and then clears the handle; nothing else changes. Without a handle it
  changes nothing.
\<close>

theorem uninit_camera_order:
  "(driver_camera_data g = Some data \<and> driver_camera g = Some drv \<longrightarrow>
      uninit_camera g =
        g\<lparr>trace := trace g @
               (if camera_callback_deinitialized g then [Cb_deinitialized] else []) @
               (if free drv then [Drv_free (ident drv) data] else []),
          driver_camera_data := None\<rparr>) \<and>
   (driver_camera_data g = None \<longrightarrow> uninit_camera g = g)"
  by (simp add: uninit_camera_def emit_def)

theorem uninit_camera_order_witness:
  "uninit_camera (example_globals\<lparr>driver_camera := Some example_null, driver_camera_data := Some 1\<rparr>) =
     example_globals\<lparr>driver_camera := Some example_null,
       trace := [Cb_deinitialized, Drv_free ''null'' 1]\<rparr> \<and>
   uninit_camera example_globals = example_globals"
  using uninit_camera_order [of "example_globals\<lparr>driver_camera := Some example_null, driver_camera_data := Some 1\<rparr>" 1 example_null]
    uninit_camera_order [of example_globals 1 example_null]
  by (simp add: example_globals_def example_null_def)


subsection \<open>Init, uninit and start\<close>

lemma backend_inits_append [simp]:
  "backend_inits (xs @ ys) = backend_inits xs + backend_inits ys"
  by (simp add: backend_inits_def)

lemma backend_inits_log [simp]:
  "backend_inits (map (\<lambda>s. RARCH_LOG_OUTPUT (f s)) xs) = 0"
  by (induction xs) (simp_all add: backend_inits_def)

lemma find_camera_driver_Inr:
  assumes "find_camera_driver b g = Inr g1"
  shows "driver_camera_data g1 = driver_camera_data g"
    and "backend_inits (trace g1) = backend_inits (trace g)"
    and "camera_callback_initialized g1 = camera_callback_initialized g"
  using assms
  by (auto simp: find_camera_driver_def Let_def emit_def backend_inits_def split: if_splits)

lemma init_camera_live: "driver_camera_data g \<noteq> None \<Longrightarrow> init_camera b g = Inr g"
  by (simp add: init_camera_def)

lemma init_camera_unfold:
  assumes "driver_camera_data g = None" and "find_camera_driver b g = Inr g1"
    and "driver_camera g1 = Some drv"
    and "data = init drv (camera_init_device g1) (camera_callback_caps g1)
        (camera_init_width g1) (camera_init_height g1)"
  shows "init_camera b g =
    Inr (g1\<lparr>trace := trace g1 @
            [Drv_init (ident drv) (camera_init_device g1) (camera_callback_caps g1)
               (camera_init_width g1) (camera_init_height g1)] @
            (if data = None then [RARCH_ERR msg_init_failed] else []) @
            (if camera_callback_initialized g1 then [Cb_initialized] else []),
          driver_camera_data := data,
          driver_camera_active := (if data = None then False else driver_camera_active g1)\<rparr>)"
  using assms by (simp add: init_camera_def Let_def emit_def)

lemma init_camera_fresh:
  assumes "driver_camera_data g = None" and "init_camera b g = Inr g'"
  shows "\<exists>g1 drv.
    find_camera_driver b g = Inr g1 \<and> driver_camera g1 = Some drv \<and>
    driver_camera g' = Some drv \<and>
    driver_camera_data g' =
      init drv (camera_init_device g1) (camera_callback_caps g1)
        (camera_init_width g1) (camera_init_height g1) \<and>
    trace g' = trace g1 @
       [Drv_init (ident drv) (camera_init_device g1) (camera_callback_caps g1)
          (camera_init_width g1) (camera_init_height g1)] @
       (if driver_camera_data g' = None then [RARCH_ERR msg_init_failed] else []) @
       (if camera_callback_initialized g then [Cb_initialized] else []) \<and>
    (driver_camera_data g' = None \<longrightarrow> \<not> driver_camera_active g')"
proof -
  from assms obtain g1 where f: "find_camera_driver b g = Inr g1"
    by (auto simp: init_camera_def split: sum.splits)
  with assms obtain drv where d: "driver_camera g1 = Some drv"
    by (auto simp: init_camera_def split: option.splits)
  note cb = find_camera_driver_Inr(3) [OF f]
  from init_camera_unfold [OF assms(1) f d refl] assms(2)
  have g': "g' = g1\<lparr>trace := trace g1 @
            [Drv_init (ident drv) (camera_init_device g1) (camera_callback_caps g1)
               (camera_init_width g1) (camera_init_height g1)] @
            (if init drv (camera_init_device g1) (camera_callback_caps g1)
                  (camera_init_width g1) (camera_init_height g1) = None
             then [RARCH_ERR msg_init_failed] else []) @
            (if camera_callback_initialized g1 then [Cb_initialized] else []),
          driver_camera_data := init drv (camera_init_device g1) (camera_callback_caps g1)
                  (camera_init_width g1) (camera_init_height g1),
          driver_camera_active :=
            (if init drv (camera_init_device g1) (camera_callback_caps g1)
                  (camera_init_width g1) (camera_init_height g1) = None
             then False else driver_camera_active g1)\<rparr>"
    by simp
  show ?thesis
    by (rule exI [of _ g1], rule exI [of _ drv]) (simp add: f d cb g')
qed

text \<open>
  A handle that the functions of this file made live has its descriptor: init stores the
  handle only after the selection stored a descriptor, and nothing here clears
  \<^verbatim>\<open>driver.camera\<close>.
\<close>

lemma init_camera_descriptor:
  assumes "driver_camera_data g \<noteq> None \<longrightarrow> driver_camera g \<noteq> None"
    and "init_camera b g = Inr g'"
  shows "driver_camera g' \<noteq> None"
proof (cases "driver_camera_data g = None")
  case True
  from init_camera_fresh [OF True assms(2)] show ?thesis by auto
next
  case False
  with assms show ?thesis by (simp add: init_camera_live)
qed

text \<open>
  Claim C3. With a live handle \<^verbatim>\<open>init_camera\<close> returns at once: the globals and the
  trace are unchanged, so there is no selection, no log line and no backend init call.
  Hence after an init from the uninitialized state that produced a live handle, a second
  init changes nothing, and the two calls together made exactly one backend init call.
\<close>

theorem init_camera_twice:
  "(driver_camera_data g \<noteq> None \<longrightarrow> init_camera b g = Inr g) \<and>
   (driver_camera_data g = None \<and> init_camera b g = Inr g1 \<and> driver_camera_data g1 \<noteq> None \<longrightarrow>
      init_camera b g1 = Inr g1 \<and>
      backend_inits (trace g1) = backend_inits (trace g) + 1)"
proof (intro conjI impI)
  assume "driver_camera_data g \<noteq> None"
  then show "init_camera b g = Inr g" by (rule init_camera_live)
next
  assume a: "driver_camera_data g = None \<and> init_camera b g = Inr g1 \<and> driver_camera_data g1 \<noteq> None"
  then show "init_camera b g1 = Inr g1" by (simp add: init_camera_live)
  from a have n: "driver_camera_data g = None" and i: "init_camera b g = Inr g1"
    and l: "driver_camera_data g1 \<noteq> None" by simp_all
  from init_camera_fresh [OF n i] obtain g0 e where
    "find_camera_driver b g = Inr g0" and
    "trace g1 = trace g0 @ [e] @
       (if driver_camera_data g1 = None then [RARCH_ERR msg_init_failed] else []) @
       (if camera_callback_initialized g then [Cb_initialized] else [])" and "is_Drv_init e"
    by force
  then show "backend_inits (trace g1) = backend_inits (trace g) + 1"
    using l find_camera_driver_Inr(2) [of b g g0]
    by (simp add: backend_inits_def)
qed

text \<open>
  Claim C4. What the code does when the backend's init returns NULL and the initialized
  callback is set: it logs the failure, marks the camera inactive, leaves the handle
  NULL, and then calls the initialized callback all the same, as the last thing it does.
  A later \<^verbatim>\<open>uninit_camera\<close> finds no handle and sends no deinitialized notification.
\<close>

theorem init_camera_failure_notifies:
  "driver_camera_data g = None \<and> init_camera b g = Inr g' \<and>
   driver_camera_data g' = None \<and> camera_callback_initialized g \<longrightarrow>
     \<not> driver_camera_active g' \<and>
     (\<exists>tr. trace g' = tr @ [RARCH_ERR msg_init_failed, Cb_initialized]) \<and>
     uninit_camera g' = g'"
proof
  assume a: "driver_camera_data g = None \<and> init_camera b g = Inr g' \<and>
    driver_camera_data g' = None \<and> camera_callback_initialized g"
  then have n: "driver_camera_data g = None" and i: "init_camera b g = Inr g'" by simp_all
  from a have "uninit_camera g' = g'" by (simp add: uninit_camera_def)
  with init_camera_fresh [OF n i] a
  show "\<not> driver_camera_active g' \<and>
     (\<exists>tr. trace g' = tr @ [RARCH_ERR msg_init_failed, Cb_initialized]) \<and>
     uninit_camera g' = g'"
    by auto
qed

lemma example_find_v4l2:
  "find_driver_index example_build ''camera_driver'' ''video4linux2'' = 0"
  unfolding find_driver_index_def
  by (subst find_driver_index_from.simps)
     (simp add: find_ident_int example_registered example_v4l2_def)

lemma example_init_failure:
  "init_camera example_build (example_globals\<lparr>g_settings_camera_driver := ''video4linux2''\<rparr>) =
     Inr (example_globals\<lparr>g_settings_camera_driver := ''video4linux2'',
            driver_camera := Some example_v4l2, driver_camera_active := False,
            trace := [Drv_init ''video4linux2'' None 1 640 480,
                      RARCH_ERR msg_init_failed, Cb_initialized]\<rparr>)"
  by (simp add: init_camera_def find_camera_driver_def example_find_v4l2 Let_def emit_def
      find_handle_int example_registered example_globals_def example_v4l2_def
      camera_init_device_def camera_init_width_def camera_init_height_def)

theorem init_camera_failure_notifies_witness:
  "init_camera example_build (example_globals\<lparr>g_settings_camera_driver := ''video4linux2''\<rparr>) =
     Inr (example_globals\<lparr>g_settings_camera_driver := ''video4linux2'',
            driver_camera := Some example_v4l2, driver_camera_active := False,
            trace := [Drv_init ''video4linux2'' None 1 640 480,
                      RARCH_ERR msg_init_failed, Cb_initialized]\<rparr>) \<and>
   (\<exists>tr. [Drv_init ''video4linux2'' None 1 640 480, RARCH_ERR msg_init_failed, Cb_initialized] =
      tr @ [RARCH_ERR msg_init_failed, Cb_initialized])"
  using init_camera_failure_notifies
    [of "example_globals\<lparr>g_settings_camera_driver := ''video4linux2''\<rparr>" example_build
        "example_globals\<lparr>g_settings_camera_driver := ''video4linux2'',
            driver_camera := Some example_v4l2, driver_camera_active := False,
            trace := [Drv_init ''video4linux2'' None 1 640 480,
                      RARCH_ERR msg_init_failed, Cb_initialized]\<rparr>"]
  by (simp add: example_init_failure)

lemma example_find_null:
  "find_driver_index example_build ''camera_driver'' ''null'' = 1"
  unfolding find_driver_index_def
  by (subst find_driver_index_from.simps, simp add: find_ident_int example_registered example_v4l2_def,
      subst find_driver_index_from.simps, simp add: find_ident_int example_registered example_null_def)

lemma example_init_success:
  "init_camera example_build example_globals =
     Inr (example_globals\<lparr>driver_camera := Some example_null, driver_camera_data := Some 1,
            trace := [Drv_init ''null'' None 1 640 480, Cb_initialized]\<rparr>)"
  by (simp add: init_camera_def find_camera_driver_def example_find_null Let_def emit_def
      find_handle_int example_registered example_globals_def example_null_def
      camera_init_device_def camera_init_width_def camera_init_height_def)

theorem init_camera_twice_witness:
  "init_camera example_build example_globals =
     Inr (example_globals\<lparr>driver_camera := Some example_null, driver_camera_data := Some 1,
            trace := [Drv_init ''null'' None 1 640 480, Cb_initialized]\<rparr>) \<and>
   init_camera example_build
     (example_globals\<lparr>driver_camera := Some example_null, driver_camera_data := Some 1,
            trace := [Drv_init ''null'' None 1 640 480, Cb_initialized]\<rparr>) =
     Inr (example_globals\<lparr>driver_camera := Some example_null, driver_camera_data := Some 1,
            trace := [Drv_init ''null'' None 1 640 480, Cb_initialized]\<rparr>) \<and>
   backend_inits [Drv_init ''null'' None 1 640 480, Cb_initialized] = 1"
  using init_camera_twice [of example_globals example_build
     "example_globals\<lparr>driver_camera := Some example_null, driver_camera_data := Some 1,
            trace := [Drv_init ''null'' None 1 640 480, Cb_initialized]\<rparr>"]
  by (simp add: example_init_success) (simp add: example_globals_def backend_inits_def)

lemma stop_poll_without_handle:
  "driver_camera_data g = None \<Longrightarrow> driver_camera_stop g = g \<and> driver_camera_poll g = g"
  by (simp add: driver_camera_stop_def driver_camera_poll_def split: option.splits)

text \<open>
  Claim C7. With a descriptor, a live handle and a start operation,
  \<^verbatim>\<open>driver_camera_start\<close> returns false and pushes the "explicitly disabled" message
  when the permission flag is off, and calls the backend's start and returns its answer
  when the flag is on. Without a descriptor, a handle or a start operation it returns
  false and pushes nothing, so the two failures differ in the message queue.
\<close>

theorem driver_camera_start_policy:
  "(driver_camera g = Some drv \<and> driver_camera_data g = Some data \<and> start drv = Some f \<longrightarrow>
      driver_camera_start g =
        (if g_settings_camera_allow g
         then (f data, emit [Drv_start (ident drv) data] g)
         else (False, emit [Msg_queue_push msg_disabled 1 180] g)) \<and>
      emit [Msg_queue_push msg_disabled 1 180] g \<noteq> g) \<and>
   (driver_camera g = None \<or> driver_camera_data g = None \<or>
    (\<exists>d. driver_camera g = Some d \<and> start d = None) \<longrightarrow>
      driver_camera_start g = (False, g))"
proof -
  have "trace (emit [Msg_queue_push msg_disabled 1 180] g) \<noteq> trace g"
    by (simp add: emit_def)
  then have "emit [Msg_queue_push msg_disabled 1 180] g \<noteq> g"
    by metis
  then show ?thesis
    by (auto simp: driver_camera_start_def split: option.splits)
qed

theorem driver_camera_start_policy_witness:
  "driver_camera_start (example_globals\<lparr>driver_camera := Some example_null, driver_camera_data := Some 1\<rparr>) =
     (False, example_globals\<lparr>driver_camera := Some example_null, driver_camera_data := Some 1,
               trace := [Msg_queue_push msg_disabled 1 180]\<rparr>) \<and>
   driver_camera_start (example_globals\<lparr>driver_camera := Some example_null, driver_camera_data := Some 1,
       g_settings_camera_allow := True\<rparr>) =
     (True, example_globals\<lparr>driver_camera := Some example_null, driver_camera_data := Some 1,
               g_settings_camera_allow := True, trace := [Drv_start ''null'' 1]\<rparr>) \<and>
   driver_camera_start example_globals = (False, example_globals)"
  using driver_camera_start_policy [of "example_globals\<lparr>driver_camera := Some example_null, driver_camera_data := Some 1\<rparr>" example_null 1 "\<lambda>data. True"]
    driver_camera_start_policy [of "example_globals\<lparr>driver_camera := Some example_null, driver_camera_data := Some 1, g_settings_camera_allow := True\<rparr>" example_null 1 "\<lambda>data. True"]
    driver_camera_start_policy [of example_globals example_null 1 "\<lambda>data. True"]
  by (simp add: example_globals_def example_null_def emit_def)

section \<open>Properties of the OpenGL video driver\<close>

subsection \<open>Evaluating the floating-point operations\<close>

lemma floor_rat_numeral: "\<lfloor>numeral a / numeral b :: rat\<rfloor> = numeral a div numeral b"
  by (metis floor_divide_of_int_eq of_int_numeral)

lemma floor_rat_neg_numeral: "\<lfloor>- (numeral a / numeral b) :: rat\<rfloor> = - numeral a div numeral b"
  by (metis divide_minus_left floor_divide_of_int_eq of_int_neg_numeral of_int_numeral)

lemma floor_rat_one: "\<lfloor>1 / numeral b :: rat\<rfloor> = 1 div numeral b"
  by (metis floor_divide_of_int_eq of_int_1 of_int_numeral)

lemma ceiling_rat_numeral: "\<lceil>numeral a / numeral b :: rat\<rceil> = - (- numeral a div numeral b)"
  unfolding ceiling_def by (simp add: floor_rat_neg_numeral)

lemma ceiling_rat_neg_numeral: "\<lceil>- (numeral a / numeral b) :: rat\<rceil> = - (numeral a div numeral b)"
  unfolding ceiling_def by (simp add: floor_rat_numeral)

lemma ceiling_rat_one: "\<lceil>1 / numeral b :: rat\<rceil> = - (- 1 div numeral b)"
  unfolding ceiling_def using floor_rat_neg_numeral [of Num.One b] by simp

lemmas fp_eval = to_float_def to_double_def fp_round_def floor_log2_def pow2_def
  round_half_even_def fdiv_def to_int_def Let_def compute_bitlen
  floor_rat_numeral floor_rat_neg_numeral floor_rat_one
  ceiling_rat_numeral ceiling_rat_neg_numeral ceiling_rat_one

subsection \<open>The rounding is to the nearest number of the format\<close>

lemma pow2_pos: "0 < pow2 e"
  by (simp add: pow2_def)

lemma pow2_nat: "0 \<le> e \<Longrightarrow> pow2 e = 2 ^ nat e"
  by (simp add: pow2_def)

lemma pow2_neg: "e \<le> 0 \<Longrightarrow> pow2 e = 1 / 2 ^ nat (- e)"
  by (simp add: pow2_def)

lemma floor_log2_bounds:
  assumes "0 < x"
  shows "pow2 (floor_log2 x) \<le> x \<and> x < pow2 (floor_log2 x + 1)"
proof (cases "1 \<le> x")
  case True
  define n where "n = \<lfloor>x\<rfloor>"
  have n: "1 \<le> n" using True by (simp add: n_def le_floor_iff)
  then have "0 < n" by simp
  from bitlen_bounds [OF this]
  have lo: "2 ^ nat (bitlen n - 1) \<le> n" and hi: "n < 2 ^ nat (bitlen n)" by simp_all
  have b1: "1 \<le> bitlen n"
    using \<open>0 < n\<close> bitlen_eq_zero_iff [of n] bitlen_nonneg [of n] by linarith
  have fl: "floor_log2 x = bitlen n - 1"
    using True by (simp add: floor_log2_def n_def)
  have "rat_of_int (2 ^ nat (bitlen n - 1)) \<le> of_int n"
    using lo by (rule of_int_le_iff [THEN iffD2])
  then have "2 ^ nat (bitlen n - 1) \<le> rat_of_int n" by simp
  also have "of_int n \<le> x" by (simp add: n_def)
  finally have 1: "pow2 (floor_log2 x) \<le> x"
    using b1 by (simp add: fl pow2_nat)
  have "n + 1 \<le> 2 ^ nat (bitlen n)" using hi by simp
  then have "rat_of_int (n + 1) \<le> of_int (2 ^ nat (bitlen n))"
    by (rule of_int_le_iff [THEN iffD2])
  then have "rat_of_int (n + 1) \<le> 2 ^ nat (bitlen n)" by simp
  moreover have "x < of_int (n + 1)" unfolding n_def by linarith
  ultimately have "x < 2 ^ nat (bitlen n)" by (rule less_le_trans [rotated])
  then have 2: "x < pow2 (floor_log2 x + 1)"
    using b1 by (simp add: fl pow2_nat)
  from 1 2 show ?thesis ..
next
  case False
  define y where "y = 1 / x"
  define m where "m = \<lceil>y\<rceil>"
  have y1: "1 < y" using False assms by (simp add: y_def)
  have xy: "x = 1 / y" by (simp add: y_def)
  have m2: "2 \<le> m" using y1 by (simp add: m_def le_ceiling_iff)
  then have "0 < m - 1" by simp
  from bitlen_bounds [OF this]
  have lo: "2 ^ nat (bitlen (m - 1) - 1) \<le> m - 1" and hi: "m - 1 < 2 ^ nat (bitlen (m - 1))"
    by simp_all
  define c where "c = bitlen (m - 1)"
  have c1: "1 \<le> c"
    using \<open>0 < m - 1\<close> bitlen_eq_zero_iff [of "m - 1"] bitlen_nonneg [of "m - 1"]
    unfolding c_def by linarith
  have fl: "floor_log2 x = - c"
    using False by (simp add: floor_log2_def m_def y_def c_def)
  have "m \<le> 2 ^ nat c" using hi by (simp add: c_def)
  then have "rat_of_int m \<le> of_int (2 ^ nat c)" by (rule of_int_le_iff [THEN iffD2])
  then have "rat_of_int m \<le> 2 ^ nat c" by simp
  moreover have "y \<le> of_int m" by (simp add: m_def)
  ultimately have yhi: "y \<le> 2 ^ nat c" by (rule order_trans [rotated])
  have "rat_of_int (2 ^ nat (c - 1)) \<le> of_int (m - 1)"
    using lo unfolding c_def by (rule of_int_le_iff [THEN iffD2])
  then have "2 ^ nat (c - 1) \<le> rat_of_int (m - 1)" by simp
  moreover have "of_int (m - 1) < y"
    unfolding m_def using ceiling_correct [of y] by simp
  ultimately have ylo: "2 ^ nat (c - 1) < y" by (rule le_less_trans)
  have "pow2 (floor_log2 x) = 1 / 2 ^ nat c"
    using c1 by (simp add: fl pow2_neg)
  moreover have "1 / 2 ^ nat c \<le> 1 / y"
    using yhi y1 by (simp add: field_simps)
  ultimately have 1: "pow2 (floor_log2 x) \<le> x"
    by (simp add: xy)
  have "pow2 (floor_log2 x + 1) = 1 / 2 ^ nat (c - 1)"
    using c1 by (simp add: fl pow2_neg)
  moreover have "1 / y < 1 / 2 ^ nat (c - 1)"
    using ylo y1 by (simp add: field_simps)
  ultimately have 2: "x < pow2 (floor_log2 x + 1)"
    by (simp add: xy)
  from 1 2 show ?thesis ..
qed

lemma round_half_even_close: "\<bar>of_int (round_half_even y) - y\<bar> \<le> 1 / 2"
proof -
  have "of_int \<lfloor>y\<rfloor> \<le> y" "y < of_int \<lfloor>y\<rfloor> + 1" by linarith+
  then show ?thesis
    by (auto simp: round_half_even_def Let_def)
qed

lemma fp_round_close:
  assumes "fp_round p emin emax x = Some r"
  shows "\<bar>r - x\<bar> \<le> pow2 (max (floor_log2 \<bar>x\<bar>) emin - int p + 1) / 2"
proof (cases "x = 0")
  case True
  with assms show ?thesis using pow2_pos [of "max (floor_log2 \<bar>x\<bar>) emin - int p + 1"]
    by (simp add: fp_round_def)
next
  case False
  define u where "u = pow2 (max (floor_log2 \<bar>x\<bar>) emin - int p + 1)"
  have u: "0 < u" by (simp add: u_def pow2_pos)
  from assms False have r: "r = of_int (round_half_even (x / u)) * u"
    by (simp add: fp_round_def Let_def u_def split: if_splits)
  have "r - x = (of_int (round_half_even (x / u)) - x / u) * u"
    using u by (simp add: r left_diff_distrib)
  then have "\<bar>r - x\<bar> = \<bar>of_int (round_half_even (x / u)) - x / u\<bar> * u"
    using u by (simp add: abs_mult)
  also have "\<dots> \<le> 1 / 2 * u"
    using round_half_even_close [of "x / u"] u by (intro mult_right_mono) simp_all
  finally show ?thesis by (simp add: u_def)
qed

subsection \<open>The viewport\<close>

lemma desired_aspect_value: "desired_aspect = Some (11184811 / 8388608)"
  by (simp add: desired_aspect_def fp_eval)

lemma desired_key: "aspect_key (11184811 / 8388608) = Some 1333"
  by (simp add: aspect_key_def fp_eval)

lemma resize_800_600:
  "resize True 800 600 = Some \<lparr>vp_x = 0, vp_y = 0, vp_width = 800, vp_height = 600\<rparr>"
  by (simp add: resize_def fp_eval)

lemma resize_1920_600:
  "resize True 1920 600 = Some \<lparr>vp_x = 559, vp_y = 0, vp_width = 800, vp_height = 600\<rparr>"
  by (simp add: resize_def fp_eval)

lemma resize_600_1200:
  "resize True 600 1200 = Some \<lparr>vp_x = 0, vp_y = 375, vp_width = 600, vp_height = 450\<rparr>"
  by (simp add: resize_def fp_eval)

lemma resize_4001_3000:
  "resize True 4001 3000 = Some \<lparr>vp_x = 0, vp_y = 0, vp_width = 4001, vp_height = 3000\<rparr>"
  by (simp add: resize_def fp_eval)

lemma resize_40010_30000:
  "resize True 40010 30000 = Some \<lparr>vp_x = 0, vp_y = 0, vp_width = 40010, vp_height = 30000\<rparr>"
  by (simp add: resize_def fp_eval)

lemma spec_resize_4001_3000:
  "spec_resize 4001 3000 = \<lparr>sv_x = 1 / 2, sv_y = 0, sv_width = 4000, sv_height = 3000\<rparr>"
  by (simp add: spec_resize_def round_def floor_rat_numeral Let_def)

lemma spec_resize_40010_30000:
  "spec_resize 40010 30000 = \<lparr>sv_x = 5, sv_y = 0, sv_width = 40000, sv_height = 30000\<rparr>"
  by (simp add: spec_resize_def round_def floor_rat_numeral Let_def)

lemma resize_unlocked:
  "resize False width height =
     Some \<lparr>vp_x = 0, vp_y = 0, vp_width = width, vp_height = height\<rparr>"
  by (simp add: resize_def)

text \<open>
  The claim C1 as stated fails. For a 4001 by 3000 window the rounded keys differ
  (1334 against 1333), so the spec's algorithm letterboxes to a width of 4000; the code
  compares the truncated keys, finds them equal (1333) and uses the full surface, 4001
  wide. A 40010 by 30000 surface shows the same with a margin of 5 on each side.
\<close>

theorem resize_round_counterexample:
  "resize True 4001 3000 = Some \<lparr>vp_x = 0, vp_y = 0, vp_width = 4001, vp_height = 3000\<rparr> \<and>
   round (4001 / 3000 * 1000 :: rat) = 1334 \<and> round (4 / 3 * 1000 :: rat) = 1333 \<and>
   spec_resize 4001 3000 = \<lparr>sv_x = 1 / 2, sv_y = 0, sv_width = 4000, sv_height = 3000\<rparr> \<and>
   resize True 40010 30000 = Some \<lparr>vp_x = 0, vp_y = 0, vp_width = 40010, vp_height = 30000\<rparr> \<and>
   spec_resize 40010 30000 = \<lparr>sv_x = 5, sv_y = 0, sv_width = 40000, sv_height = 30000\<rparr>"
  by (simp add: resize_4001_3000 resize_40010_30000 spec_resize_4001_3000
      spec_resize_40010_30000 round_def floor_rat_numeral)

lemma resize_cases:
  assumes "device_aspect width height = Some dev" and "aspect_key dev = Some k"
  shows "resize True width height =
     (if 1333 < k then do {
        delta \<leftarrow> letterbox_delta (11184811 / 8388608) dev;
        x \<leftarrow> letterbox_origin width delta;
        w \<leftarrow> letterbox_extent width delta;
        Some \<lparr>vp_x = x, vp_y = 0, vp_width = w, vp_height = height\<rparr>
      } else if k < 1333 then do {
        delta \<leftarrow> letterbox_delta dev (11184811 / 8388608);
        y \<leftarrow> letterbox_origin height delta;
        h \<leftarrow> letterbox_extent height delta;
        Some \<lparr>vp_x = 0, vp_y = y, vp_width = width, vp_height = h\<rparr>
      } else Some \<lparr>vp_x = 0, vp_y = 0, vp_width = width, vp_height = height\<rparr>)"
proof -
  from desired_aspect_value obtain four_thirds where
    f: "fdiv to_double 4 3 = Some four_thirds" and
    d: "to_float four_thirds = Some (11184811 / 8388608)"
    by (auto simp: desired_aspect_def bind_eq_Some_conv)
  from desired_key obtain m' where
    m': "to_float (1398101375 / 1048576) = Some m'" and k': "to_int m' = Some 1333"
    by (auto simp: aspect_key_def bind_eq_Some_conv)
  from assms(1) obtain width_f height_f where
    w: "to_float (of_int width) = Some width_f" and
    h: "to_float (of_int height) = Some height_f" and
    q: "fdiv to_float width_f height_f = Some dev"
    by (auto simp: device_aspect_def bind_eq_Some_conv)
  from assms(2) obtain m where
    m: "to_float (dev * 1000) = Some m" and k: "to_int m = Some k"
    by (auto simp: aspect_key_def bind_eq_Some_conv)
  show ?thesis
    by (simp add: resize_def f d m' k' w h q m k letterbox_delta_def letterbox_origin_def
        letterbox_extent_def)
qed

lemma resize_undefined:
  assumes "device_aspect width height = None"
  shows "resize True width height = None"
proof -
  from desired_aspect_value obtain four_thirds where
    f: "fdiv to_double 4 3 = Some four_thirds" and
    d: "to_float four_thirds = Some (11184811 / 8388608)"
    by (auto simp: desired_aspect_def bind_eq_Some_conv)
  have "to_float (of_int width) \<bind> (\<lambda>width_f. to_float (of_int height) \<bind>
          (\<lambda>height_f. fdiv to_float width_f height_f \<bind> g)) = None" for g :: "rat \<Rightarrow> viewport option"
    using assms by (auto simp: device_aspect_def bind_eq_None_conv)
  then show ?thesis
    by (simp add: resize_def f d)
qed

lemma device_aspect_1366_768: "device_aspect 1366 768 = Some (14920363 / 8388608)"
  by (simp add: device_aspect_def fp_eval)

lemma aspect_key_1366_768: "aspect_key (14920363 / 8388608) = Some 1778"
  by (simp add: aspect_key_def fp_eval)

lemma letterbox_1366_768:
  "do {
     delta \<leftarrow> letterbox_delta (11184811 / 8388608) (14920363 / 8388608);
     x \<leftarrow> letterbox_origin 1366 delta;
     w \<leftarrow> letterbox_extent 1366 delta;
     Some \<lparr>vp_x = x, vp_y = 0, vp_width = w, vp_height = 768\<rparr>
   } = Some \<lparr>vp_x = 170, vp_y = 0, vp_width = 1024, vp_height = 768\<rparr>"
  by (simp add: letterbox_delta_def letterbox_origin_def letterbox_extent_def fp_eval)

lemma device_aspect_zero_height: "device_aspect width 0 = None"
  by (simp add: device_aspect_def fdiv_def to_float_def fp_round_def bind_eq_None_conv)

text \<open>
  Claim C1, amended. With the aspect lock on, \<^verbatim>\<open>resize\<close> compares the keys
  \<^verbatim>\<open>(int)(x*1000)\<close>, that is truncated and not rounded, of the device aspect
  \<^verbatim>\<open>(float)width / height\<close> and of the desired aspect, the \<^verbatim>\<open>float\<close> nearest to 4/3, whose
  key is 1333. A greater device key gives origin-x \<open>width * (0.5 - delta)\<close> and width
  \<open>2 * width * delta\<close> with \<open>delta = (desired / device - 1) / 2 + 0.5\<close> and the full
  height; a smaller one the same on the vertical axis with \<open>device / desired\<close>; equal
  keys the full surface; all in C arithmetic, the results truncated to integers. A zero
  height leaves the behaviour undefined. \<^verbatim>\<open>resize(800,600)\<close> uses the full surface,
  \<^verbatim>\<open>resize(1920,600)\<close> gives origin-x 559 and width 800, and \<^verbatim>\<open>resize(600,1200)\<close> gives
  origin-y 375 and height 450.
\<close>

theorem resize_aspect_lock:
  "desired_aspect = Some (11184811 / 8388608) \<and>
   aspect_key (11184811 / 8388608) = Some 1333 \<and>
   (device_aspect width height = Some dev \<and> aspect_key dev = Some k \<longrightarrow>
      (1333 < k \<longrightarrow>
         resize True width height = do {
           delta \<leftarrow> letterbox_delta (11184811 / 8388608) dev;
           x \<leftarrow> letterbox_origin width delta;
           w \<leftarrow> letterbox_extent width delta;
           Some \<lparr>vp_x = x, vp_y = 0, vp_width = w, vp_height = height\<rparr>
         }) \<and>
      (k < 1333 \<longrightarrow>
         resize True width height = do {
           delta \<leftarrow> letterbox_delta dev (11184811 / 8388608);
           y \<leftarrow> letterbox_origin height delta;
           h \<leftarrow> letterbox_extent height delta;
           Some \<lparr>vp_x = 0, vp_y = y, vp_width = width, vp_height = h\<rparr>
         }) \<and>
      (k = 1333 \<longrightarrow>
         resize True width height =
           Some \<lparr>vp_x = 0, vp_y = 0, vp_width = width, vp_height = height\<rparr>)) \<and>
   (device_aspect width height = None \<longrightarrow> resize True width height = None) \<and>
   device_aspect width 0 = None \<and>
   resize True 800 600 = Some \<lparr>vp_x = 0, vp_y = 0, vp_width = 800, vp_height = 600\<rparr> \<and>
   resize True 1920 600 = Some \<lparr>vp_x = 559, vp_y = 0, vp_width = 800, vp_height = 600\<rparr> \<and>
   resize True 600 1200 = Some \<lparr>vp_x = 0, vp_y = 375, vp_width = 600, vp_height = 450\<rparr>"
proof (intro conjI impI)
  assume a: "device_aspect width height = Some dev \<and> aspect_key dev = Some k"
  then have c: "resize True width height =
     (if 1333 < k then do {
        delta \<leftarrow> letterbox_delta (11184811 / 8388608) dev;
        x \<leftarrow> letterbox_origin width delta;
        w \<leftarrow> letterbox_extent width delta;
        Some \<lparr>vp_x = x, vp_y = 0, vp_width = w, vp_height = height\<rparr>
      } else if k < 1333 then do {
        delta \<leftarrow> letterbox_delta dev (11184811 / 8388608);
        y \<leftarrow> letterbox_origin height delta;
        h \<leftarrow> letterbox_extent height delta;
        Some \<lparr>vp_x = 0, vp_y = y, vp_width = width, vp_height = h\<rparr>
      } else Some \<lparr>vp_x = 0, vp_y = 0, vp_width = width, vp_height = height\<rparr>)"
    by (intro resize_cases) simp_all
  {
    assume "1333 < k"
    then show "resize True width height = do {
           delta \<leftarrow> letterbox_delta (11184811 / 8388608) dev;
           x \<leftarrow> letterbox_origin width delta;
           w \<leftarrow> letterbox_extent width delta;
           Some \<lparr>vp_x = x, vp_y = 0, vp_width = w, vp_height = height\<rparr>
         }" by (simp add: c)
  next
    assume "k < 1333"
    then show "resize True width height = do {
           delta \<leftarrow> letterbox_delta dev (11184811 / 8388608);
           y \<leftarrow> letterbox_origin height delta;
           h \<leftarrow> letterbox_extent height delta;
           Some \<lparr>vp_x = 0, vp_y = y, vp_width = width, vp_height = h\<rparr>
         }" by (simp add: c)
  next
    assume "k = 1333"
    then show "resize True width height =
           Some \<lparr>vp_x = 0, vp_y = 0, vp_width = width, vp_height = height\<rparr>"
      by (simp add: c)
  }
qed (simp_all add: desired_aspect_value desired_key resize_undefined device_aspect_zero_height
       resize_800_600 resize_1920_600 resize_600_1200)

theorem resize_aspect_lock_witness:
  "device_aspect 1366 768 = Some (14920363 / 8388608) \<and>
   aspect_key (14920363 / 8388608) = Some 1778 \<and>
   resize True 1366 768 = Some \<lparr>vp_x = 170, vp_y = 0, vp_width = 1024, vp_height = 768\<rparr>"
  using resize_aspect_lock [of 1366 768 "14920363 / 8388608" 1778]
  by (simp add: device_aspect_1366_768 aspect_key_1366_768 letterbox_1366_768)

subsection \<open>The frame counter and the published frame rate\<close>

lemma smod_180: "0 < k \<Longrightarrow> k smod 180 = 0 \<longleftrightarrow> 180 dvd k" for k :: int
  by (simp add: smod_mod_positive mod_eq_0_iff_dvd)

lemma show_fps_frames: "frames (show_fps clock w) = frames w + 1"
  by (simp add: show_fps_def gettimeofday_def Let_def)

lemma show_fps_quiet:
  "\<not> (0 < sint (frames w) \<and> 180 dvd sint (frames w)) \<Longrightarrow>
     titles (show_fps clock w) = titles w"
  using smod_180 [of "sint (frames w)"]
  by (auto simp: show_fps_def gettimeofday_def Let_def)

lemma show_fps_publish:
  assumes "0 < sint (frames w)" and "180 dvd sint (frames w)"
  shows "show_fps clock w =
     w\<lparr>clock_reads := Suc (Suc (clock_reads w)), tv := clock (Suc (clock_reads w)),
       titles := titles w @
         [Title_FPS (tv_to_fps (tv w) (clock (clock_reads w)) 180) (sint (frames w))],
       frames := frames w + 1\<rparr>"
proof -
  from assms have "frames w \<noteq> 0" by auto
  moreover from assms have "sint (frames w) smod 180 = 0" by (simp add: smod_180)
  ultimately show ?thesis
    using assms(1) by (simp add: show_fps_def gettimeofday_def Let_def)
qed

lemma show_fps_first:
  assumes "frames w = 0"
  shows "show_fps clock w =
     w\<lparr>clock_reads := Suc (clock_reads w), tv := clock (clock_reads w), frames := 1\<rparr>"
  using assms by (simp add: show_fps_def gettimeofday_def Let_def)

lemma show_fps_idle:
  assumes "frames w \<noteq> 0" and "\<not> (0 < sint (frames w) \<and> 180 dvd sint (frames w))"
  shows "show_fps clock w = w\<lparr>frames := frames w + 1\<rparr>"
  using assms smod_180 [of "sint (frames w)"]
  by (auto simp: show_fps_def gettimeofday_def Let_def)

lemma gl_frame_true: "fst (gl_frame env clock gl frame width height pitch w) = True"
  by (simp add: gl_frame_def Let_def)

lemma gl_frame_show_fps:
  "frames (snd (gl_frame env clock gl frame width height pitch w)) = frames (show_fps clock w) \<and>
   titles (snd (gl_frame env clock gl frame width height pitch w)) = titles (show_fps clock w) \<and>
   tv (snd (gl_frame env clock gl frame width height pitch w)) = tv (show_fps clock w) \<and>
   clock_reads (snd (gl_frame env clock gl frame width height pitch w)) = clock_reads (show_fps clock w)"
  by (simp add: gl_frame_def Let_def show_fps_def gettimeofday_def split: prod.splits)

lemma tv_to_fps_shift:
  assumes "tv_sec b = tv_sec a + ds" and "tv_usec b = tv_usec a + dus"
  shows "tv_to_fps a b n = tv_to_fps \<lparr>tv_sec = 0, tv_usec = 0\<rparr> \<lparr>tv_sec = ds, tv_usec = dus\<rparr> n"
  using assms by (simp add: tv_to_fps_def)

lemma show_fps_step:
  assumes "window_open clock w" and "steady clock ds dus"
  shows "window_open clock (show_fps clock w) \<and>
         (titles (show_fps clock w) = titles w \<or>
          (\<exists>k. titles (show_fps clock w) =
                 titles w @ [Title_FPS (tv_to_fps \<lparr>tv_sec = 0, tv_usec = 0\<rparr>
                                                  \<lparr>tv_sec = ds, tv_usec = dus\<rparr> 180) k] \<and>
               0 < k \<and> 180 dvd k))"
proof (cases "frames w = 0")
  case True
  then show ?thesis
    by (simp add: show_fps_first window_open_def)
next
  case nz: False
  with assms(1) have r: "0 < clock_reads w" and t: "tv w = clock (clock_reads w - 1)"
    by (simp_all add: window_open_def)
  show ?thesis
  proof (cases "0 < sint (frames w) \<and> 180 dvd sint (frames w)")
    case True
    from r obtain m where m: "clock_reads w = Suc m" by (cases "clock_reads w") simp_all
    from assms(2) have "tv_sec (clock (Suc m)) = tv_sec (clock m) + ds"
      and "tv_usec (clock (Suc m)) = tv_usec (clock m) + dus"
      by (simp_all add: steady_def)
    then have "tv_to_fps (clock m) (clock (Suc m)) 180 =
        tv_to_fps \<lparr>tv_sec = 0, tv_usec = 0\<rparr> \<lparr>tv_sec = ds, tv_usec = dus\<rparr> 180"
      by (rule tv_to_fps_shift)
    then have "tv_to_fps (tv w) (clock (clock_reads w)) 180 =
        tv_to_fps \<lparr>tv_sec = 0, tv_usec = 0\<rparr> \<lparr>tv_sec = ds, tv_usec = dus\<rparr> 180"
      by (simp add: t m)
    with True show ?thesis
      by (simp add: show_fps_publish window_open_def)
  next
    case False
    with nz show ?thesis
      using r t by (simp add: show_fps_idle window_open_def)
  qed
qed

lemma gl_frame_step:
  assumes "window_open clock w" and "steady clock ds dus"
  shows "window_open clock (snd (gl_frame env clock gl frame width height pitch w)) \<and>
         (titles (snd (gl_frame env clock gl frame width height pitch w)) = titles w \<or>
          (\<exists>k. titles (snd (gl_frame env clock gl frame width height pitch w)) =
                 titles w @ [Title_FPS (tv_to_fps \<lparr>tv_sec = 0, tv_usec = 0\<rparr>
                                                  \<lparr>tv_sec = ds, tv_usec = dus\<rparr> 180) k] \<and>
               0 < k \<and> 180 dvd k))"
  using show_fps_step [OF assms] gl_frame_show_fps [of env clock gl frame width height pitch w]
  by (simp add: window_open_def)

lemma submit_frames_run:
  assumes "window_open clock w" and "steady clock ds dus"
  shows "frames (submit_frames env clock gl fs w) = frames w + of_nat (length fs) \<and>
         (\<exists>added. titles (submit_frames env clock gl fs w) = titles w @ added \<and>
            (\<forall>t \<in> set added. \<exists>k. t = Title_FPS (tv_to_fps \<lparr>tv_sec = 0, tv_usec = 0\<rparr>
                                                  \<lparr>tv_sec = ds, tv_usec = dus\<rparr> 180) k \<and>
               0 < k \<and> 180 dvd k))"
  using assms(1)
proof (induction fs arbitrary: w)
  case Nil
  then show ?case by simp
next
  case (Cons f fs)
  obtain frame width height pitch where f: "f = (frame, width, height, pitch)"
    by (cases f) auto
  let ?w = "snd (gl_frame env clock gl frame width height pitch w)"
  from gl_frame_step [OF Cons.prems assms(2)]
  have o: "window_open clock ?w"
    and t: "titles ?w = titles w \<or>
          (\<exists>k. titles ?w =
                 titles w @ [Title_FPS (tv_to_fps \<lparr>tv_sec = 0, tv_usec = 0\<rparr>
                                                  \<lparr>tv_sec = ds, tv_usec = dus\<rparr> 180) k] \<and>
               0 < k \<and> 180 dvd k)"
    by simp_all
  have fr: "frames ?w = frames w + 1"
    using gl_frame_show_fps [of env clock gl frame width height pitch w]
    by (simp add: show_fps_frames)
  from Cons.IH [OF o] obtain added where
    a1: "frames (submit_frames env clock gl fs ?w) = frames ?w + of_nat (length fs)" and
    a2: "titles (submit_frames env clock gl fs ?w) = titles ?w @ added" and
    a3: "\<forall>t \<in> set added. \<exists>k. t = Title_FPS (tv_to_fps \<lparr>tv_sec = 0, tv_usec = 0\<rparr>
                                                  \<lparr>tv_sec = ds, tv_usec = dus\<rparr> 180) k \<and>
               0 < k \<and> 180 dvd k"
    by blast
  have "frames (submit_frames env clock gl (f # fs) w) = frames w + of_nat (length (f # fs))"
    using a1 fr by (simp add: f)
  moreover from t have "\<exists>added'. titles (submit_frames env clock gl (f # fs) w) = titles w @ added' \<and>
            (\<forall>t \<in> set added'. \<exists>k. t = Title_FPS (tv_to_fps \<lparr>tv_sec = 0, tv_usec = 0\<rparr>
                                                  \<lparr>tv_sec = ds, tv_usec = dus\<rparr> 180) k \<and>
               0 < k \<and> 180 dvd k)"
  proof
    assume "titles ?w = titles w"
    with a2 a3 show ?thesis by (auto simp: f)
  next
    assume "\<exists>k. titles ?w =
                 titles w @ [Title_FPS (tv_to_fps \<lparr>tv_sec = 0, tv_usec = 0\<rparr>
                                                  \<lparr>tv_sec = ds, tv_usec = dus\<rparr> 180) k] \<and>
               0 < k \<and> 180 dvd k"
    then obtain k where k: "titles ?w =
                 titles w @ [Title_FPS (tv_to_fps \<lparr>tv_sec = 0, tv_usec = 0\<rparr>
                                                  \<lparr>tv_sec = ds, tv_usec = dus\<rparr> 180) k]"
      "0 < k" "180 dvd k" by blast
    show ?thesis
      by (rule exI [of _ "Title_FPS (tv_to_fps \<lparr>tv_sec = 0, tv_usec = 0\<rparr>
                                                  \<lparr>tv_sec = ds, tv_usec = dus\<rparr> 180) k # added"])
         (use a2 a3 k in \<open>auto simp: f\<close>)
  qed
  ultimately show ?case by blast
qed

lemma to_float_180: "to_float 180 = Some 180"
  by (simp add: fp_eval)

lemma tv_to_fps_180:
  "tv_to_fps tv0 new_tv 180 = elapsed_float tv0 new_tv \<bind> (\<lambda>time. fdiv to_float 180 time)"
  by (simp add: tv_to_fps_def elapsed_float_def to_float_180)

lemma tv_to_fps_3s:
  "tv_to_fps \<lparr>tv_sec = 0, tv_usec = 0\<rparr> \<lparr>tv_sec = 3, tv_usec = 0\<rparr> 180 = Some 60"
  by (simp add: tv_to_fps_def fp_eval)

lemma tv_to_fps_2900ms:
  "tv_to_fps \<lparr>tv_sec = 10, tv_usec = 200000\<rparr> \<lparr>tv_sec = 13, tv_usec = 100000\<rparr> 180 =
     Some (8135503 / 131072)"
  by (simp add: tv_to_fps_def fp_eval)

lemma tv_to_fps_stalled: "tv_to_fps t t 180 = None"
  by (simp add: tv_to_fps_def fp_eval)

lemma example_clock_steady: "steady example_clock 3 0"
  by (simp add: steady_def example_clock_def)

text \<open>
  Claim C9. Every frame submission adds one to the frame counter. A submission sets a
  title only when the counter it finds is a positive multiple of 180, and then the title
  carries \<^verbatim>\<open>tv_to_fps\<close> of the stored window start and the clock's reading, with 180
  frames: 180 divided, as \<^verbatim>\<open>float\<close>s, by the elapsed seconds, which is the exact quotient
  whenever the elapsed seconds and the quotient are \<^verbatim>\<open>float\<close>s. In a run of submissions
  that starts with the counter at 0, under a clock that advances by a fixed step with
  every reading, the counter ends at the number of submissions and every title set
  carries 180 divided by that step.
\<close>

theorem gl_frame_fps:
  "frames (snd (gl_frame env clock gl frame width height pitch w)) = frames w + 1 \<and>
   (titles (snd (gl_frame env clock gl frame width height pitch w)) \<noteq> titles w \<longrightarrow>
      0 < sint (frames w) \<and> 180 dvd sint (frames w)) \<and>
   (0 < sint (frames w) \<and> 180 dvd sint (frames w) \<longrightarrow>
      titles (snd (gl_frame env clock gl frame width height pitch w)) =
        titles w @ [Title_FPS (tv_to_fps (tv w) (clock (clock_reads w)) 180) (sint (frames w))]) \<and>
   tv_to_fps tv0 new_tv 180 =
     elapsed_float tv0 new_tv \<bind> (\<lambda>time. fdiv to_float 180 time) \<and>
   (elapsed_float tv0 new_tv = Some (elapsed_seconds tv0 new_tv) \<and>
    elapsed_seconds tv0 new_tv \<noteq> 0 \<and>
    to_float (180 / elapsed_seconds tv0 new_tv) = Some (180 / elapsed_seconds tv0 new_tv) \<longrightarrow>
      tv_to_fps tv0 new_tv 180 = Some (180 / elapsed_seconds tv0 new_tv)) \<and>
   (frames w = 0 \<and> steady clock ds dus \<longrightarrow>
      frames (submit_frames env clock gl fs w) = of_nat (length fs) \<and>
      (\<exists>added. titles (submit_frames env clock gl fs w) = titles w @ added \<and>
         (\<forall>t \<in> set added.
            \<exists>k. t = Title_FPS (tv_to_fps \<lparr>tv_sec = 0, tv_usec = 0\<rparr>
                                   \<lparr>tv_sec = ds, tv_usec = dus\<rparr> 180) k \<and>
                0 < k \<and> 180 dvd k)))"
proof (intro conjI impI)
  note g = gl_frame_show_fps [of env clock gl frame width height pitch w]
  show "frames (snd (gl_frame env clock gl frame width height pitch w)) = frames w + 1"
    using g by (simp add: show_fps_frames)
  show "0 < sint (frames w)"
    if "titles (snd (gl_frame env clock gl frame width height pitch w)) \<noteq> titles w"
    using that g show_fps_quiet [of w clock] by auto
  show "180 dvd sint (frames w)"
    if "titles (snd (gl_frame env clock gl frame width height pitch w)) \<noteq> titles w"
    using that g show_fps_quiet [of w clock] by auto
  show "titles (snd (gl_frame env clock gl frame width height pitch w)) =
        titles w @ [Title_FPS (tv_to_fps (tv w) (clock (clock_reads w)) 180) (sint (frames w))]"
    if "0 < sint (frames w) \<and> 180 dvd sint (frames w)"
    using that g by (simp add: show_fps_publish)
  show "tv_to_fps tv0 new_tv 180 =
     elapsed_float tv0 new_tv \<bind> (\<lambda>time. fdiv to_float 180 time)"
    by (rule tv_to_fps_180)
  show "tv_to_fps tv0 new_tv 180 = Some (180 / elapsed_seconds tv0 new_tv)"
    if "elapsed_float tv0 new_tv = Some (elapsed_seconds tv0 new_tv) \<and>
        elapsed_seconds tv0 new_tv \<noteq> 0 \<and>
        to_float (180 / elapsed_seconds tv0 new_tv) = Some (180 / elapsed_seconds tv0 new_tv)"
    using that by (simp add: tv_to_fps_180 fdiv_def)
next
  assume a: "frames w = 0 \<and> steady clock ds dus"
  then have o: "window_open clock w" by (simp add: window_open_def)
  from a have s: "steady clock ds dus" by simp
  from submit_frames_run [OF o s, of env gl fs] a
  show "frames (submit_frames env clock gl fs w) = of_nat (length fs)" by simp
  from submit_frames_run [OF o s, of env gl fs]
  show "\<exists>added. titles (submit_frames env clock gl fs w) = titles w @ added \<and>
         (\<forall>t \<in> set added.
            \<exists>k. t = Title_FPS (tv_to_fps \<lparr>tv_sec = 0, tv_usec = 0\<rparr>
                                   \<lparr>tv_sec = ds, tv_usec = dus\<rparr> 180) k \<and>
                0 < k \<and> 180 dvd k)" by simp
qed

theorem gl_frame_fps_witness:
  "steady example_clock 3 0 \<and>
   titles (snd (gl_frame example_env example_clock example_gl 0 256 224 512
                  (example_world\<lparr>frames := 180, clock_reads := 1\<rparr>))) =
     [Title_FPS (Some 60) 180] \<and>
   frames (snd (gl_frame example_env example_clock example_gl 0 256 224 512
                  (example_world\<lparr>frames := 180, clock_reads := 1\<rparr>))) = 181 \<and>
   frames (submit_frames example_env example_clock example_gl
             [(0, 256, 224, 512), (0, 256, 224, 512)] example_world) = 2"
proof -
  have p: "0 < sint (frames (example_world\<lparr>frames := 180, clock_reads := 1\<rparr>)) \<and>
           180 dvd sint (frames (example_world\<lparr>frames := 180, clock_reads := 1\<rparr>))"
    by simp
  have z: "frames example_world = 0 \<and> steady example_clock 3 0"
    by (simp add: example_world_def example_clock_steady)
  have t: "tv_to_fps (tv (example_world\<lparr>frames := 180, clock_reads := 1\<rparr>))
             (example_clock (clock_reads (example_world\<lparr>frames := 180, clock_reads := 1\<rparr>))) 180 =
           Some 60"
    using tv_to_fps_3s by (simp add: example_world_def example_clock_def)
  note th = gl_frame_fps [of example_env example_clock example_gl 0 256 224 512
      "example_world\<lparr>frames := 180, clock_reads := 1\<rparr>"]
  note th0 = gl_frame_fps [of example_env example_clock example_gl 0 256 224 512
      example_world _ _ 3 0 "[(0, 256, 224, 512), (0, 256, 224, 512)]"]
  from th p t have "titles (snd (gl_frame example_env example_clock example_gl 0 256 224 512
                  (example_world\<lparr>frames := 180, clock_reads := 1\<rparr>))) =
     [Title_FPS (Some 60) 180]"
    by (simp add: example_world_def)
  moreover from th have "frames (snd (gl_frame example_env example_clock example_gl 0 256 224 512
                  (example_world\<lparr>frames := 180, clock_reads := 1\<rparr>))) = 181"
    by simp
  moreover from th0 z have "frames (submit_frames example_env example_clock example_gl
             [(0, 256, 224, 512), (0, 256, 224, 512)] example_world) = 2"
    by simp
  ultimately show ?thesis
    using example_clock_steady by simp
qed

subsection \<open>Vsync and the return value of frame submission\<close>

text \<open>
  Claim C8. For a driver with vsync on, \<^verbatim>\<open>gl_set_nonblock_state\<close> sets the swap interval
  to 0 for true and to 1 for false and leaves the driver data, the stored \<^verbatim>\<open>vsync\<close>
  among them, as they are. A driver that \<^verbatim>\<open>gl_init\<close> created with vsync requested has
  vsync on and the swap interval 1, and true followed by false brings back that state.
\<close>

theorem gl_set_nonblock_state_vsync:
  "(vsync gl \<longrightarrow>
      gl_set_nonblock_state gl True w = (gl, w\<lparr>swap_interval := 0\<rparr>) \<and>
      gl_set_nonblock_state gl False w = (gl, w\<lparr>swap_interval := 1\<rparr>)) \<and>
   (gl_init env video w0 = (Some gl, w) \<and> video_vsync video \<longrightarrow>
      vsync gl \<and> swap_interval w = 1 \<and>
      gl_set_nonblock_state gl False (snd (gl_set_nonblock_state gl True w)) = (gl, w))"
proof (intro conjI impI)
  assume a: "gl_init env video w0 = (Some gl, w) \<and> video_vsync video"
  then show v: "vsync gl" and i: "swap_interval w = 1"
    by (auto simp: gl_init_def Let_def split: if_splits)
  have "w\<lparr>swap_interval := 1\<rparr> = w" using i by simp
  then show "gl_set_nonblock_state gl False (snd (gl_set_nonblock_state gl True w)) = (gl, w)"
    using v by (simp add: gl_set_nonblock_state_def)
qed (simp_all add: gl_set_nonblock_state_def)

lemma example_gl_init:
  "gl_init example_env example_video example_world =
     (Some example_gl, example_world\<lparr>swap_interval := 1, titles := [Title_SSNES]\<rparr>)"
  by (simp add: gl_init_def example_env_def example_video_def example_world_def example_gl_def)

theorem gl_set_nonblock_state_vsync_witness:
  "gl_init example_env example_video example_world =
     (Some example_gl, example_world\<lparr>swap_interval := 1, titles := [Title_SSNES]\<rparr>) \<and>
   video_vsync example_video \<and>
   swap_interval (snd (gl_set_nonblock_state example_gl True
     (example_world\<lparr>swap_interval := 1, titles := [Title_SSNES]\<rparr>))) = 0 \<and>
   gl_set_nonblock_state example_gl False
     (snd (gl_set_nonblock_state example_gl True
        (example_world\<lparr>swap_interval := 1, titles := [Title_SSNES]\<rparr>))) =
     (example_gl, example_world\<lparr>swap_interval := 1, titles := [Title_SSNES]\<rparr>)"
proof -
  have v: "video_vsync example_video" by (simp add: example_video_def)
  have a: "gl_init example_env example_video example_world =
      (Some example_gl, example_world\<lparr>swap_interval := 1, titles := [Title_SSNES]\<rparr>) \<and>
      video_vsync example_video"
    using example_gl_init v by simp
  from gl_set_nonblock_state_vsync [of example_gl
      "example_world\<lparr>swap_interval := 1, titles := [Title_SSNES]\<rparr>"
      example_env example_video example_world] a
  have g: "vsync example_gl"
    and t: "gl_set_nonblock_state example_gl True
           (example_world\<lparr>swap_interval := 1, titles := [Title_SSNES]\<rparr>) =
         (example_gl, example_world\<lparr>swap_interval := 1, titles := [Title_SSNES]\<rparr>
                        \<lparr>swap_interval := 0\<rparr>)"
    and r: "gl_set_nonblock_state example_gl False
           (snd (gl_set_nonblock_state example_gl True
              (example_world\<lparr>swap_interval := 1, titles := [Title_SSNES]\<rparr>))) =
         (example_gl, example_world\<lparr>swap_interval := 1, titles := [Title_SSNES]\<rparr>)"
    by blast+
  have "swap_interval (snd (gl_set_nonblock_state example_gl True
     (example_world\<lparr>swap_interval := 1, titles := [Title_SSNES]\<rparr>))) = 0"
    unfolding t by simp
  with a r show ?thesis by blast
qed

text \<open>
  Claim C10. \<^verbatim>\<open>gl_frame\<close> returns true for every pixel buffer, width, height and pitch,
  in every state.
\<close>

theorem gl_frame_returns_true:
  "fst (gl_frame env clock gl frame width height pitch w) = True"
  by (simp add: gl_frame_def Let_def)

theorem gl_frame_returns_true_witness:
  "fst (gl_frame example_env example_clock example_gl 0 256 224 512 example_world) = True \<and>
   fst (gl_frame example_env example_clock example_gl 0 (- 1) 0 (- 7)
          (example_world\<lparr>frames := 2147483647\<rparr>)) = True"
  using gl_frame_returns_true [of example_env example_clock example_gl 0 256 224 512 example_world]
    gl_frame_returns_true [of example_env example_clock example_gl 0 "- 1" 0 "- 7"
      "example_world\<lparr>frames := 2147483647\<rparr>"]
  by simp

end
